theory Spec2Isabelle
  imports Main "HOL-Library.Word"
begin

unbundle bit_operations_syntax

section \<open>Library functions used by the tool\<close>

subsection \<open>crypto/md5 and encoding/hex\<close>

text \<open>
  The tool hashes the local file with \<^verbatim>\<open>md5.New()\<close>, \<^verbatim>\<open>io.Copy\<close> and
  \<^verbatim>\<open>hex.EncodeToString(hash.Sum(nil))\<close>. The digest is the MD5 function of RFC 1321 on
  32-bit words: padding to a multiple of 64 bytes with the bit length as a 64-bit
  little-endian integer, then 64 steps per block.
\<close>

type_synonym byte = "8 word"
type_synonym u32 = "32 word"

definition md5_shift :: "nat list" where
  "md5_shift =
     [7, 12, 17, 22, 7, 12, 17, 22, 7, 12, 17, 22, 7, 12, 17, 22,
      5, 9, 14, 20, 5, 9, 14, 20, 5, 9, 14, 20, 5, 9, 14, 20,
      4, 11, 16, 23, 4, 11, 16, 23, 4, 11, 16, 23, 4, 11, 16, 23,
      6, 10, 15, 21, 6, 10, 15, 21, 6, 10, 15, 21, 6, 10, 15, 21]"

definition md5_table :: "u32 list" where
  "md5_table =
     [0xd76aa478, 0xe8c7b756, 0x242070db, 0xc1bdceee,
      0xf57c0faf, 0x4787c62a, 0xa8304613, 0xfd469501,
      0x698098d8, 0x8b44f7af, 0xffff5bb1, 0x895cd7be,
      0x6b901122, 0xfd987193, 0xa679438e, 0x49b40821,
      0xf61e2562, 0xc040b340, 0x265e5a51, 0xe9b6c7aa,
      0xd62f105d, 0x02441453, 0xd8a1e681, 0xe7d3fbc8,
      0x21e1cde6, 0xc33707d6, 0xf4d50d87, 0x455a14ed,
      0xa9e3e905, 0xfcefa3f8, 0x676f02d9, 0x8d2a4c8a,
      0xfffa3942, 0x8771f681, 0x6d9d6122, 0xfde5380c,
      0xa4beea44, 0x4bdecfa9, 0xf6bb4b60, 0xbebfbc70,
      0x289b7ec6, 0xeaa127fa, 0xd4ef3085, 0x04881d05,
      0xd9d4d039, 0xe6db99e5, 0x1fa27cf8, 0xc4ac5665,
      0xf4292244, 0x432aff97, 0xab9423a7, 0xfc93a039,
      0x655b59c3, 0x8f0ccc92, 0xffeff47d, 0x85845dd1,
      0x6fa87e4f, 0xfe2ce6e0, 0xa3014314, 0x4e0811a1,
      0xf7537e82, 0xbd3af235, 0x2ad7d2bb, 0xeb86d391]"

definition rotl32 :: "u32 \<Rightarrow> nat \<Rightarrow> u32" where
  "rotl32 x n = push_bit n x OR drop_bit (32 - n) x"

definition md5_mix :: "nat \<Rightarrow> u32 \<Rightarrow> u32 \<Rightarrow> u32 \<Rightarrow> u32" where
  "md5_mix i b c d =
     (if i < 16 then (b AND c) OR (NOT b AND d)
      else if i < 32 then (d AND b) OR (NOT d AND c)
      else if i < 48 then b XOR c XOR d
      else c XOR (b OR NOT d))"

definition md5_index :: "nat \<Rightarrow> nat" where
  "md5_index i =
     (if i < 16 then i
      else if i < 32 then (5 * i + 1) mod 16
      else if i < 48 then (3 * i + 5) mod 16
      else (7 * i) mod 16)"

definition md5_step ::
  "u32 list \<Rightarrow> nat \<Rightarrow> u32 \<times> u32 \<times> u32 \<times> u32 \<Rightarrow> u32 \<times> u32 \<times> u32 \<times> u32" where
  "md5_step m i = (\<lambda>(a, b, c, d).
     (d, b + rotl32 (a + md5_mix i b c d + md5_table ! i + m ! md5_index i) (md5_shift ! i),
      b, c))"

definition le32 :: "byte list \<Rightarrow> u32" where
  "le32 bs = foldr (\<lambda>x w. ucast x OR push_bit 8 w) bs 0"

fun md5_words :: "byte list \<Rightarrow> u32 list" where
  "md5_words (b0 # b1 # b2 # b3 # bs) = le32 [b0, b1, b2, b3] # md5_words bs"
| "md5_words _ = []"

definition md5_block :: "u32 \<times> u32 \<times> u32 \<times> u32 \<Rightarrow> byte list \<Rightarrow> u32 \<times> u32 \<times> u32 \<times> u32" where
  "md5_block st blk =
     (case st of (a0, b0, c0, d0) \<Rightarrow>
        (case fold (md5_step (md5_words blk)) [0..<64] st of (a, b, c, d) \<Rightarrow>
           (a0 + a, b0 + b, c0 + c, d0 + d)))"

definition md5_pad :: "byte list \<Rightarrow> byte list" where
  "md5_pad msg =
     msg @ [0x80] @ replicate ((119 - length msg mod 64) mod 64) 0
       @ map (\<lambda>k. ucast (drop_bit (8 * k) (8 * word_of_nat (length msg) :: 64 word))) [0..<8]"

fun md5_blocks :: "nat \<Rightarrow> u32 \<times> u32 \<times> u32 \<times> u32 \<Rightarrow> byte list \<Rightarrow> u32 \<times> u32 \<times> u32 \<times> u32" where
  "md5_blocks 0 st bs = st"
| "md5_blocks (Suc n) st bs = md5_blocks n (md5_block st (take 64 bs)) (drop 64 bs)"

definition md5_sum :: "byte list \<Rightarrow> byte list" where
  "md5_sum msg =
     (let p = md5_pad msg in
      case md5_blocks (length p div 64) (0x67452301, 0xefcdab89, 0x98badcfe, 0x10325476) p of
        (a, b, c, d) \<Rightarrow>
          concat (map (\<lambda>w. map (\<lambda>k. ucast (drop_bit (8 * k) w)) [0..<4]) [a, b, c, d]))"

definition hexdigit :: "nat \<Rightarrow> char" where
  "hexdigit n = ''0123456789abcdef'' ! n"

definition EncodeToString :: "byte list \<Rightarrow> string" where
  "EncodeToString bs =
     concat (map (\<lambda>b. [hexdigit (unat b div 16), hexdigit (unat b mod 16)]) bs)"

definition md5hex :: "byte list \<Rightarrow> string" where
  "md5hex bs = EncodeToString (md5_sum bs)"

subsection \<open>path/filepath\<close>

text \<open>
  \<^verbatim>\<open>filepath.Base\<close> on a Unix path: the last element, after trailing slashes are removed;
  \<^verbatim>\<open>"."\<close> for the empty path and \<^verbatim>\<open>"/"\<close> for a path of slashes only.
\<close>

definition Base :: "string \<Rightarrow> string" where
  "Base path =
     (if path = [] then ''.''
      else let stripped = rev (dropWhile (\<lambda>c. c = CHR ''/'') (rev path));
               last_elem = rev (takeWhile (\<lambda>c. c \<noteq> CHR ''/'') (rev stripped))
           in if last_elem = [] then ''/'' else last_elem)"

text \<open>
  \<^verbatim>\<open>filepath.Join\<close>: the non-empty elements separated by a slash. The normalisation
  done by \<^verbatim>\<open>filepath.Clean\<close> is left out; the elements joined below are a home directory
  and fixed names.
\<close>

fun Join :: "string list \<Rightarrow> string" where
  "Join [] = []"
| "Join (e # es) =
     (if e = [] then Join es
      else if Join es = [] then e
      else e @ ''/'' @ Join es)"

section \<open>Data\<close>

subsection \<open>OAuth2\<close>

record Config =
  ClientID :: string
  ClientSecret :: string
  Scopes :: "string list"

record Token =
  AccessToken :: string
  TokenType :: string
  RefreshToken :: string
  Expiry :: int

text \<open>The value of \<^verbatim>\<open>&oauth2.Token{}\<close>, which is what the JSON text \<^verbatim>\<open>{}\<close> decodes to.\<close>

definition zeroToken :: Token where
  "zeroToken = \<lparr>AccessToken = [], TokenType = [], RefreshToken = [], Expiry = 0\<rparr>"

text \<open>\<^verbatim>\<open>config.Client(ctx, tok)\<close>: an HTTP client that carries the token.\<close>

datatype Client = Client Config Token

definition DriveFileScope :: string where
  "DriveFileScope = ''https://www.googleapis.com/auth/drive.file''"

subsection \<open>The remote storage service\<close>

text \<open>
  \<^verbatim>\<open>drive.File\<close>, with the fields the tool sets or reads. The same struct is the
  metadata sent with a create or update call and the element of a list result.
\<close>

record File =
  FileId :: string
  Name :: string
  MimeType :: string
  Parents :: "string list"
  Md5Checksum :: string

text \<open>
  Modelled from the spec: the cloud storage API is an external service, of which the spec
  gives the contract \<^verbatim>\<open>list(query) -> items[]\<close>, \<^verbatim>\<open>create(metadata, media?) -> item\<close>,
  \<^verbatim>\<open>update(id, metadata, media?) -> item\<close>, each item carrying an identifier, a name and a
  content hash, with the query predicates exact name match, type = folder and
  parent-containment. The store is the list of its items in listing order; an item is a
  \<^verbatim>\<open>File\<close> together with its content.
\<close>

record item = File +
  Media :: "byte list"

text \<open>
  A query by type, exact name and parent: a conjunction of up to three predicates,
  \<^verbatim>\<open>mimeType = '...'\<close>, \<^verbatim>\<open>name = '...'\<close> and \<^verbatim>\<open>'...' in parents\<close>, given by its operands.
\<close>

record query =
  qMimeType :: "string option"
  qName :: string
  qParent :: string

definition folderMime :: string where
  "folderMime = ''application/vnd.google-apps.folder''"

definition defaultMime :: string where
  "defaultMime = ''application/octet-stream''"

text \<open>
  Modelled from the spec: a list call returns the items that satisfy every predicate of
  the query, in listing order.
\<close>

definition matches :: "query \<Rightarrow> item \<Rightarrow> bool" where
  "matches q f =
     ((case qMimeType q of None \<Rightarrow> True | Some m \<Rightarrow> MimeType f = m)
      \<and> Name f = qName q
      \<and> qParent q \<in> set (Parents f))"

definition Files_List :: "query \<Rightarrow> item list \<Rightarrow> item list" where
  "Files_List q d = filter (matches q) d"

text \<open>
  Modelled from the spec: identifiers are assigned by the service. A new identifier is one that is longer than
  every identifier the store mentions, as an item's own or as a parent, and than the alias
  \<^verbatim>\<open>root\<close>.
\<close>

definition usedIds :: "item list \<Rightarrow> string list" where
  "usedIds d = ''root'' # concat (map (\<lambda>f. FileId f # Parents f) d)"

definition freshId :: "item list \<Rightarrow> string" where
  "freshId d = replicate (Suc (foldr (\<lambda>i n. max (length i) n) (usedIds d) 0)) CHR ''x''"

text \<open>
  Modelled from the spec: create adds a new item with a fresh identifier at the end of the listing. Without parents in
  the metadata the item is placed in the root; without a MIME type it gets the service's
  default; its content hash is the MD5 of the uploaded media.
\<close>

definition newItem :: "File \<Rightarrow> byte list option \<Rightarrow> item list \<Rightarrow> item" where
  "newItem meta media d =
     \<lparr>FileId = freshId d,
      Name = Name meta,
      MimeType = (if MimeType meta = [] then defaultMime else MimeType meta),
      Parents = (if Parents meta = [] then [''root''] else Parents meta),
      Md5Checksum = (case media of None \<Rightarrow> [] | Some bs \<Rightarrow> md5hex bs),
      Media = (case media of None \<Rightarrow> [] | Some bs \<Rightarrow> bs)\<rparr>"

definition Files_Create :: "File \<Rightarrow> byte list option \<Rightarrow> item list \<Rightarrow> item \<times> item list" where
  "Files_Create meta media d = (newItem meta media d, d @ [newItem meta media d])"

text \<open>
  Modelled from the spec: on an update with media the item of that identifier keeps its place, identifier, type and
  parents; a non-empty name in the metadata replaces its name; its content and content
  hash are replaced. The call fails when no item has the identifier or the item is a
  folder.
\<close>

definition patch :: "File \<Rightarrow> byte list \<Rightarrow> item \<Rightarrow> item" where
  "patch meta bs f =
     f\<lparr>Name := (if Name meta = [] then Name f else Name meta),
       Md5Checksum := md5hex bs,
       Media := bs\<rparr>"

definition Files_Update ::
  "string \<Rightarrow> File \<Rightarrow> byte list \<Rightarrow> item list \<Rightarrow> (item \<times> item list) option" where
  "Files_Update i meta bs d =
     (case find (\<lambda>f. FileId f = i) d of
        None \<Rightarrow> None
      | Some f \<Rightarrow>
          if MimeType f = folderMime then None
          else Some (patch meta bs f,
                     map (\<lambda>g. if FileId g = i then patch meta bs g else g) d))"

text \<open>
  The effect of an update that leaves the name as it is: new content and content hash for
  the item of that identifier.
\<close>

definition reload :: "string \<Rightarrow> byte list \<Rightarrow> item \<Rightarrow> item" where
  "reload i bs g = (if FileId g = i then g\<lparr>Md5Checksum := md5hex bs, Media := bs\<rparr> else g)"

text \<open>
  The effect on the store of the update the tool sends: the name of the local file, new
  content and content hash for the item of that identifier.
\<close>

definition renew :: "string \<Rightarrow> string \<Rightarrow> byte list \<Rightarrow> item \<Rightarrow> item" where
  "renew i n bs g =
     (if FileId g = i
      then g\<lparr>Name := (if n = [] then Name g else n), Md5Checksum := md5hex bs, Media := bs\<rparr>
      else g)"

text \<open>The identifiers of a store are unique.\<close>

definition wf_drive :: "item list \<Rightarrow> bool" where
  "wf_drive d = distinct (map FileId d)"

subsection \<open>Query texts\<close>

text \<open>
  A list call carries its query as a text in the query language of the service. The
  language is not part of the tool. \<open>driveQuery\<close> reads the part of it in which the two
  query texts of the tool are written: the predicates \<^verbatim>\<open>name = '...'\<close>,
  \<^verbatim>\<open>mimeType = '...'\<close> and \<^verbatim>\<open>'...' in parents\<close>, joined by \<^verbatim>\<open>and\<close>, with blanks between
  the words. A literal ends at the next apostrophe; inside a literal a backslash makes
  the character after it part of the literal. Any other text is refused.
\<close>

definition apostrophe :: char where
  "apostrophe = CHR 0x27"

definition backslash :: char where
  "backslash = CHR 0x5C"

datatype token = Word string | Lit string

definition word :: "string \<Rightarrow> token list" where
  "word w = (if w = [] then [] else [Word w])"

fun lexW :: "string \<Rightarrow> string \<Rightarrow> token list option"
  and lexL :: "string \<Rightarrow> string \<Rightarrow> token list option" where
  "lexW w [] = Some (word w)"
| "lexW w (c # cs) =
     (if c = CHR '' '' then map_option (\<lambda>ts. word w @ ts) (lexW [] cs)
      else if c = apostrophe then (if w = [] then lexL [] cs else None)
      else lexW (w @ [c]) cs)"
| "lexL l [] = None"
| "lexL l [c] = (if c = apostrophe then Some [Lit l] else None)"
| "lexL l (c # d # ds) =
     (if c = apostrophe then map_option (\<lambda>ts. Lit l # ts) (lexW [] (d # ds))
      else if c = backslash then lexL (l @ [d]) ds
      else lexL (l @ [c]) (d # ds))"

datatype atom = NameIs string | MimeTypeIs string | InParents string

fun readAtoms :: "token list \<Rightarrow> atom list option"
  and readMore :: "atom \<Rightarrow> token list \<Rightarrow> atom list option" where
  "readAtoms (Word a # Word b # Lit l # ts) =
     (if a = ''name'' \<and> b = ''='' then readMore (NameIs l) ts
      else if a = ''mimeType'' \<and> b = ''='' then readMore (MimeTypeIs l) ts
      else None)"
| "readAtoms (Lit l # Word a # Word b # ts) =
     (if a = ''in'' \<and> b = ''parents'' then readMore (InParents l) ts else None)"
| "readAtoms ts = None"
| "readMore x [] = Some [x]"
| "readMore x (Word a # ts) =
     (if a = ''and'' then map_option (\<lambda>xs. x # xs) (readAtoms ts) else None)"
| "readMore x (Lit l # ts) = None"

fun holds :: "item \<Rightarrow> atom \<Rightarrow> bool" where
  "holds f (NameIs l) = (Name f = l)"
| "holds f (MimeTypeIs l) = (MimeType f = l)"
| "holds f (InParents l) = (l \<in> set (Parents f))"

definition driveQuery :: "string \<Rightarrow> (item \<Rightarrow> bool) option" where
  "driveQuery text =
     (case lexW [] text of
        None \<Rightarrow> None
      | Some ts \<Rightarrow>
          (case readAtoms ts of
             None \<Rightarrow> None
           | Some xs \<Rightarrow> Some (\<lambda>f. list_all (holds f) xs)))"

subsection \<open>The process and its environment\<close>

datatype event =
    Log string
  | Printf string
  | Scan
  | Exchange string
  | MkdirAll string
  | Open string
  | Create string
  | Close string
  | ApiList query
  | ApiCreate File "byte list option"
  | ApiUpdate string File "byte list"

text \<open>
  What a run cannot decide itself: the command line, the current user, the libraries that
  parse and print JSON, the operator's input, the authorization server, how the service
  reads a query text (the items it selects, or none when it refuses the text), and which
  of the fallible calls fail. A remote call that fails leaves the store as it was.
\<close>

record env =
  Args :: "string list"
  readQuery :: "string \<Rightarrow> (item \<Rightarrow> bool) option"
  userCurrent :: "string option"
  ConfigFromJSON :: "byte list \<Rightarrow> string \<Rightarrow> Config option"
  AuthCodeURL :: "Config \<Rightarrow> string"
  scanCode :: "string option"
  configExchange :: "Config \<Rightarrow> string \<Rightarrow> Token option"
  jsonDecode :: "byte list \<Rightarrow> Token option"
  jsonEncode :: "Token \<Rightarrow> byte list"
  createErr :: bool
  encodeErr :: bool
  driveNewErr :: bool
  listFolderErr :: bool
  createFolderErr :: bool
  copyErr :: bool
  listFileErr :: bool
  updateErr :: bool
  createFileErr :: bool

text \<open>
  The state a run works on: the local files (path to content), the remote store, and the
  trace of what the process has done so far.
\<close>

record state =
  fs :: "string \<rightharpoonup> byte list"
  drive :: "item list"
  trace :: "event list"

definition emit :: "event \<Rightarrow> state \<Rightarrow> state" where
  "emit e s = s\<lparr>trace := trace s @ [e]\<rparr>"

text \<open>A process started on the files and the store of \<open>s\<close>.\<close>

definition start :: "state \<Rightarrow> state" where
  "start s = s\<lparr>trace := []\<rparr>"

text \<open>
  \<^verbatim>\<open>log.Fatalf\<close> prints and calls \<^verbatim>\<open>os.Exit(1)\<close>: the process ends at once, and
  deferred calls are not run. A function of the tool returns \<open>Inl (Fatal msg)\<close> with the
  state at that moment, or \<open>Inr\<close> its result.
\<close>

datatype fatal = Fatal string

datatype error = Error string

definition andThen ::
  "(fatal + 'a) \<times> state \<Rightarrow> ('a \<Rightarrow> state \<Rightarrow> (fatal + 'b) \<times> state) \<Rightarrow> (fatal + 'b) \<times> state" where
  "andThen r k = (case r of (Inl e, s) \<Rightarrow> (Inl e, s) | (Inr a, s) \<Rightarrow> k a s)"

text \<open>An open \<^verbatim>\<open>*os.File\<close>: the content of the file and the read offset.\<close>

record handle =
  hname :: string
  hdata :: "byte list"
  hpos :: nat

text \<open>
  Reading to the end of the file, as \<^verbatim>\<open>io.Copy\<close> and the upload of a media body do,
  and \<^verbatim>\<open>Seek(0, 0)\<close>, whose result \<open>main\<close> does not look at: the local file is a regular
  file, on which a seek to the start succeeds.
\<close>

definition readAll :: "handle \<Rightarrow> byte list \<times> handle" where
  "readAll h = (drop (hpos h) (hdata h), h\<lparr>hpos := length (hdata h)\<rparr>)"

definition Seek0 :: "handle \<Rightarrow> handle" where
  "Seek0 h = h\<lparr>hpos := 0\<rparr>"

section \<open>The credential manager\<close>

text \<open>
  \<^verbatim>\<open>tokenCacheFile\<close>: the path of the token cache under the home directory of the current
  user. The directory is created on the way, and the result of \<^verbatim>\<open>os.MkdirAll\<close> is not
  looked at. \<^verbatim>\<open>url.QueryEscape\<close> leaves the file name, which has only letters, hyphens and
  a dot, as it is.
\<close>

definition tokenCacheFile :: "env \<Rightarrow> state \<Rightarrow> (error + string) \<times> state" where
  "tokenCacheFile e s =
     (case userCurrent e of
        None \<Rightarrow> (Inl (Error ''user: Current failed''), s)
      | Some homeDir \<Rightarrow>
          (let tokenCacheDir = Join [homeDir, ''.credentials'', ''keepassx_backup'']
           in (Inr (Join [tokenCacheDir, ''drive-go-keepassx-backup.json'']),
               emit (MkdirAll tokenCacheDir) s)))"

text \<open>
  \<^verbatim>\<open>tokenFromFile\<close>: open the file, decode one JSON value into a token, close the file
  (the deferred call runs when the function returns), return the token and the decoding
  error.
\<close>

definition tokenFromFile :: "env \<Rightarrow> string \<Rightarrow> state \<Rightarrow> (error + Token) \<times> state" where
  "tokenFromFile e file s =
     (case fs s file of
        None \<Rightarrow> (Inl (Error ''open: no such file''), s)
      | Some bs \<Rightarrow>
          (let s1 = emit (Open file) s
           in case jsonDecode e bs of
                None \<Rightarrow> (Inl (Error ''json: cannot decode''), emit (Close file) s1)
              | Some t \<Rightarrow> (Inr t, emit (Close file) s1)))"

text \<open>
  \<^verbatim>\<open>getTokenFromWeb\<close>: print the authorization URL, read the code from standard input,
  exchange it for a token.
\<close>

definition getTokenFromWeb :: "env \<Rightarrow> Config \<Rightarrow> state \<Rightarrow> (fatal + Token) \<times> state" where
  "getTokenFromWeb e config s =
     (let authURL = AuthCodeURL e config;
          s1 = emit (Printf (''Go to the following link in your browser then type the ''
                 @ ''authorization code: '' @ [CHR 0x0A] @ authURL @ [CHR 0x0A])) s;
          s2 = emit Scan s1
      in case scanCode e of
           None \<Rightarrow> (Inl (Fatal ''Unable to read authorization code''), s2)
         | Some code \<Rightarrow>
             (let s3 = emit (Exchange code) s2
              in case configExchange e config code of
                   None \<Rightarrow> (Inl (Fatal ''Unable to retrieve token from web''), s3)
                 | Some tok \<Rightarrow> (Inr tok, s3)))"

text \<open>
  \<^verbatim>\<open>saveToken\<close>: create (or truncate) the file, fatal when that fails; encode the token
  into it, the result of \<^verbatim>\<open>Encode\<close> not being looked at; close the file on return.
\<close>

definition saveToken :: "env \<Rightarrow> string \<Rightarrow> Token \<Rightarrow> state \<Rightarrow> (fatal + unit) \<times> state" where
  "saveToken e file token s =
     (let s1 = emit (Printf (''Saving credential file to: '' @ file @ [CHR 0x0A])) s
      in if createErr e then (Inl (Fatal ''Unable to cache oauth token''), s1)
         else
           (let s2 = emit (Create file) (s1\<lparr>fs := (fs s1)(file \<mapsto> [])\<rparr>);
                s3 = (if encodeErr e then s2
                      else s2\<lparr>fs := (fs s2)(file \<mapsto> jsonEncode e token)\<rparr>)
            in (Inr (), emit (Close file) s3)))"

text \<open>
  \<^verbatim>\<open>getClient\<close>: the cached token when \<^verbatim>\<open>tokenFromFile\<close> returns no error, otherwise a
  token from the web, which is then saved.
\<close>

definition getClient :: "env \<Rightarrow> Config \<Rightarrow> state \<Rightarrow> (fatal + Client) \<times> state" where
  "getClient e config s =
     (case tokenCacheFile e s of
        (Inl err, s1) \<Rightarrow> (Inl (Fatal ''Unable to get path to cached credential file.''), s1)
      | (Inr cacheFile, s1) \<Rightarrow>
          (case tokenFromFile e cacheFile s1 of
             (Inr tok, s2) \<Rightarrow> (Inr (Client config tok), s2)
           | (Inl err, s2) \<Rightarrow>
               andThen (getTokenFromWeb e config s2) (\<lambda>tok s3.
               andThen (saveToken e cacheFile tok s3) (\<lambda>_ s4.
               (Inr (Client config tok), s4)))))"

section \<open>The sync engine\<close>

text \<open>
  \<^verbatim>\<open>main\<close> is one function in the source; its blocks are given a definition each, and
  \<open>main\<close> below composes them in the order of the source.
\<close>

definition folderQuery :: query where
  "folderQuery = \<lparr>qMimeType = Some folderMime, qName = ''automatic_backups'', qParent = ''root''\<rparr>"

text \<open>
  The text of the folder query, the literal of line 127. The service reads it as the three
  predicates of \<open>folderQuery\<close>.
\<close>

definition folderQueryText :: string where
  "folderQueryText =
     ''mimeType = '' @ [apostrophe] @ ''application/vnd.google-apps.folder'' @ [apostrophe]
       @ '' and name = '' @ [apostrophe] @ ''automatic_backups'' @ [apostrophe]
       @ '' and '' @ [apostrophe] @ ''root'' @ [apostrophe] @ '' in parents''"

text \<open>
  The text of the file query, line 176:
  \<^verbatim>\<open>fmt.Sprintf("name = '%s' and '%s' in parents", ringFileName, backupsFolderId)\<close>.
  The two operands are pasted between the apostrophes as they are; nothing in them is
  escaped. What the service answers to this text is \<open>fileList\<close>: the items of the store
  that its reading of the text selects, in listing order, or nothing when it refuses the
  text.
\<close>

definition fileQueryText :: "string \<Rightarrow> string \<Rightarrow> string" where
  "fileQueryText ringFileName backupsFolderId =
     ''name = '' @ [apostrophe] @ ringFileName @ [apostrophe]
       @ '' and '' @ [apostrophe] @ backupsFolderId @ [apostrophe] @ '' in parents''"

definition fileList :: "env \<Rightarrow> string \<Rightarrow> string \<Rightarrow> item list \<Rightarrow> item list option" where
  "fileList e ringFileName backupsFolderId d =
     (case readQuery e (fileQueryText ringFileName backupsFolderId) of
        None \<Rightarrow> None
      | Some P \<Rightarrow> Some (filter P d))"

text \<open>
  The two operands of the file query as a record: the query the text is meant to be, by
  exact name and parent. The event of the list call carries this record; the text sent is
  \<open>fileQueryText\<close> of the same operands.
\<close>

definition fileQuery :: "string \<Rightarrow> string \<Rightarrow> query" where
  "fileQuery ringFileName backupsFolderId =
     \<lparr>qMimeType = None, qName = ringFileName, qParent = backupsFolderId\<rparr>"

definition folderMeta :: File where
  "folderMeta =
     \<lparr>FileId = [], Name = ''automatic_backups'', MimeType = folderMime, Parents = [],
      Md5Checksum = []\<rparr>"

definition updateMeta :: "string \<Rightarrow> File" where
  "updateMeta ringFileName =
     \<lparr>FileId = [], Name = ringFileName, MimeType = [], Parents = [], Md5Checksum = []\<rparr>"

definition createMeta :: "string \<Rightarrow> string \<Rightarrow> File" where
  "createMeta ringFileName backupsFolderId =
     \<lparr>FileId = [], Name = ringFileName, MimeType = [], Parents = [backupsFolderId],
      Md5Checksum = []\<rparr>"

text \<open>The MD5 of the empty input, in hexadecimal, as \<open>main\<close> has it.\<close>

definition emptyFileHash :: string where
  "emptyFileHash = ''d41d8cd98f00b204e9800998ecf8427e''"

text \<open>Lines 127 to 151: look the backup folder up, create it when the list is empty.\<close>

definition main_folder :: "env \<Rightarrow> state \<Rightarrow> (fatal + string) \<times> state" where
  "main_folder e s =
     (let s1 = emit (ApiList folderQuery) s
      in if listFolderErr e then (Inl (Fatal ''Unable to retrieve files''), s1)
         else
           (let r = Files_List folderQuery (drive s1);
                s2 = emit (Log ''Checking for automatic_backups folder existence:'') s1
            in case r of
                 f # _ \<Rightarrow> (Inr (FileId f), s2)
               | [] \<Rightarrow>
                   (let s3 = emit (Log ''Creating automatic_backups folder'') s2;
                        s4 = emit (ApiCreate folderMeta None) s3
                    in if createFolderErr e
                       then (Inl (Fatal ''Unable to create automatic_backups folder''), s4)
                       else (case Files_Create folderMeta None (drive s4) of
                               (f, d) \<Rightarrow> (Inr (FileId f), s4\<lparr>drive := d\<rparr>)))))"

text \<open>
  Lines 153 to 174: open the local file, hash it, rewind it, refuse the hash of the empty
  input. The close is deferred to the return of \<open>main\<close>.
\<close>

definition main_hash :: "env \<Rightarrow> string \<Rightarrow> state \<Rightarrow> (fatal + handle \<times> string) \<times> state" where
  "main_hash e localRingFilePath s =
     (case fs s localRingFilePath of
        None \<Rightarrow> (Inl (Fatal ''Unable to open .kdbx file''), s)
      | Some bs \<Rightarrow>
          (let ringFile = \<lparr>hname = localRingFilePath, hdata = bs, hpos = 0\<rparr>;
               s1 = emit (Open localRingFilePath) s
           in if copyErr e
              then (Inl (Fatal ''Unable to calculate md5 hash of .kdbx file''), s1)
              else
                (case readAll ringFile of
                   (written, ringFile1) \<Rightarrow>
                     (let ringFileHash = md5hex written;
                          ringFile2 = Seek0 ringFile1
                      in if ringFileHash = emptyFileHash
                         then (Inl (Fatal ''File .kdbx is empty''), s1)
                         else (Inr (ringFile2, ringFileHash), s1)))))"

text \<open>
  Lines 176 to 214: send the file query; fatal when the call fails or the service refuses
  the text; update the first result when its hash differs, leave it when the hash is the
  same, create the file when the list is empty.
\<close>

definition main_upload ::
  "env \<Rightarrow> string \<Rightarrow> string \<Rightarrow> handle \<Rightarrow> string \<Rightarrow> state \<Rightarrow> (fatal + unit) \<times> state" where
  "main_upload e ringFileName backupsFolderId ringFile ringFileHash s =
     (let s1 = emit (ApiList (fileQuery ringFileName backupsFolderId)) s
      in if listFileErr e then (Inl (Fatal ''Unable to retrieve files''), s1)
         else
           (case fileList e ringFileName backupsFolderId (drive s1) of
              None \<Rightarrow> (Inl (Fatal ''Unable to retrieve files''), s1)
            | Some r \<Rightarrow>
           (let s2 = emit (Log ''Checking for .kdbx file existence on Drive:'') s1
            in case r of
                 f0 # _ \<Rightarrow>
                   if Md5Checksum f0 \<noteq> ringFileHash then
                     (let s3 = emit (Log ''Updating .kdbx file'') s2;
                          ringFileId = FileId f0;
                          myFile = updateMeta ringFileName;
                          body = fst (readAll ringFile);
                          s4 = emit (ApiUpdate ringFileId myFile body) s3
                      in if updateErr e
                         then (Inl (Fatal ''Unable to create automatic_backups fodler''), s4)
                         else (case Files_Update ringFileId myFile body (drive s4) of
                                 None \<Rightarrow>
                                   (Inl (Fatal ''Unable to create automatic_backups fodler''), s4)
                               | Some (f, d) \<Rightarrow>
                                   (Inr (),
                                    emit (Log (''Successfully updated .kdbx file, id:  ''
                                                 @ FileId f))
                                      (s4\<lparr>drive := d\<rparr>))))
                   else
                     (Inr (),
                      emit (Log ''The passwords file has not been changed since last sync'') s2)
               | [] \<Rightarrow>
                   (let s3 = emit (Log ''Creating .kdbx file'') s2;
                        myFile = createMeta ringFileName backupsFolderId;
                        body = fst (readAll ringFile);
                        s4 = emit (ApiCreate myFile (Some body)) s3
                    in if createFileErr e then (Inl (Fatal ''Unable to create .kdbx''), s4)
                       else (case Files_Create myFile (Some body) (drive s4) of
                               (f, d) \<Rightarrow>
                                 (Inr (),
                                  emit (Log (''Successfully created .kdbx file, id:  ''
                                               @ FileId f))
                                    (s4\<lparr>drive := d\<rparr>)))))))"

text \<open>
  Lines 153 to 218: hash, then upload, then the last two lines of output, then the
  deferred close of the local file as \<open>main\<close> returns.
\<close>

definition main_transfer :: "env \<Rightarrow> string \<Rightarrow> string \<Rightarrow> state \<Rightarrow> (fatal + unit) \<times> state" where
  "main_transfer e localRingFilePath backupsFolderId s =
     andThen (main_hash e localRingFilePath s) (\<lambda>(ringFile, ringFileHash) s2.
     andThen (main_upload e (Base localRingFilePath) backupsFolderId ringFile ringFileHash s2)
       (\<lambda>_ s3.
          (Inr (),
           emit (Close (hname ringFile))
             (emit (Printf [CHR 0x0A, CHR 0x0A]) (emit (Log ''End of syncing'') s3)))))"

text \<open>Lines 127 to 218: the folder, then the rest with the identifier of the folder.\<close>

definition main_backup :: "env \<Rightarrow> string \<Rightarrow> state \<Rightarrow> (fatal + unit) \<times> state" where
  "main_backup e localRingFilePath s =
     andThen (main_folder e s) (\<lambda>backupsFolderId s1.
       main_transfer e localRingFilePath backupsFolderId s1)"

definition main :: "env \<Rightarrow> state \<Rightarrow> (fatal + unit) \<times> state" where
  "main e s =
     (let s1 = emit (Log ''Beginning of syncing'') s
      in if length (Args e) \<noteq> 3
         then (Inl (Fatal (''Please provide .kdbx file path and client secret file path ''
                            @ ''as arguments!'')), s1)
         else
           (let localRingFilePath = Args e ! 1;
                clientSecretFilePath = Args e ! 2
            in case fs s1 clientSecretFilePath of
                 None \<Rightarrow> (Inl (Fatal ''Unable to read client secret file''), s1)
               | Some b \<Rightarrow>
                   (case ConfigFromJSON e b DriveFileScope of
                      None \<Rightarrow> (Inl (Fatal ''Unable to parse client secret file to config''), s1)
                    | Some config \<Rightarrow>
                        andThen (getClient e config s1) (\<lambda>client s2.
                          if driveNewErr e
                          then (Inl (Fatal ''Unable to retrieve drive Client''), s2)
                          else main_backup e localRingFilePath s2))))"

section \<open>Observations on traces and stores\<close>

text \<open>
  The actions of the sync engine: the calls to the remote service, and the report that
  nothing has changed.
\<close>

fun isAction :: "event \<Rightarrow> bool" where
  "isAction (ApiList q) = True"
| "isAction (ApiCreate m b) = True"
| "isAction (ApiUpdate i m b) = True"
| "isAction (Log t) = (t = ''The passwords file has not been changed since last sync'')"
| "isAction _ = False"

text \<open>The remote-write calls: folder creation, file creation, file update.\<close>

fun isWrite :: "event \<Rightarrow> bool" where
  "isWrite (ApiCreate m b) = True"
| "isWrite (ApiUpdate i m b) = True"
| "isWrite _ = False"

text \<open>The calls that write a file: a create with a media body, and an update.\<close>

fun isFileWrite :: "event \<Rightarrow> bool" where
  "isFileWrite (ApiCreate m (Some b)) = True"
| "isFileWrite (ApiUpdate i m b) = True"
| "isFileWrite _ = False"

fun isFileCreate :: "event \<Rightarrow> bool" where
  "isFileCreate (ApiCreate m (Some b)) = True"
| "isFileCreate _ = False"

fun isFolderCreate :: "event \<Rightarrow> bool" where
  "isFolderCreate (ApiCreate m None) = True"
| "isFolderCreate _ = False"

text \<open>The identifier a call names as the folder to look into or to create a file in.\<close>

fun folderUsed :: "event \<Rightarrow> string list" where
  "folderUsed (ApiList q) = (if qMimeType q = None then [qParent q] else [])"
| "folderUsed (ApiCreate m (Some b)) = Parents m"
| "folderUsed _ = []"

text \<open>\<^verbatim>\<open>os.Create\<close> of a local file.\<close>

fun isCreate :: "event \<Rightarrow> bool" where
  "isCreate (Create p) = True"
| "isCreate _ = False"

text \<open>
  What the operator sees of the interactive authorization: output on the terminal, a
  blocking read, the exchange of the code.
\<close>

fun isInteractive :: "event \<Rightarrow> bool" where
  "isInteractive (Printf t) = True"
| "isInteractive Scan = True"
| "isInteractive (Exchange c) = True"
| "isInteractive _ = False"

text \<open>
  The remote files with a given name under the backup folder, the backup folder being the
  first result of the folder query (none when there is no backup folder).
\<close>

text \<open>
  A folder resolution in which no call fails: the identifier it yields, the store it
  leaves, and the calls it makes.
\<close>

definition resolved :: "item list \<Rightarrow> string \<times> item list \<times> event list" where
  "resolved d =
     (case Files_List folderQuery d of
        f # _ \<Rightarrow> (FileId f, d, [ApiList folderQuery])
      | [] \<Rightarrow> (freshId d, d @ [newItem folderMeta None d],
               [ApiList folderQuery, ApiCreate folderMeta None]))"

definition remoteCopies :: "string \<Rightarrow> item list \<Rightarrow> item list" where
  "remoteCopies name d =
     (case Files_List folderQuery d of
        [] \<Rightarrow> []
      | f # _ \<Rightarrow> Files_List (fileQuery name (FileId f)) d)"

section \<open>Concrete runs\<close>

definition tok0 :: Token where
  "tok0 = \<lparr>AccessToken = ''ya29.a0'', TokenType = ''Bearer'', RefreshToken = ''1//0g'',
           Expiry = 1700000000\<rparr>"

definition cachePath :: string where
  "cachePath = ''/home/u/.credentials/keepassx_backup/drive-go-keepassx-backup.json''"

definition env0 :: env where
  "env0 =
     \<lparr>Args = [''keepassx_backup_tool'', ''/home/u/ring.kdbx'', ''/home/u/secret.json''],
      readQuery = driveQuery,
      userCurrent = Some ''/home/u'',
      ConfigFromJSON = (\<lambda>b scope. Some \<lparr>ClientID = ''id'', ClientSecret = ''s'', Scopes = [scope]\<rparr>),
      AuthCodeURL = (\<lambda>c. ''https://accounts.google.com/o/oauth2/auth''),
      scanCode = Some ''4/0A'',
      configExchange = (\<lambda>c code. Some tok0),
      jsonDecode = (\<lambda>bs. if bs = [0x7B, 0x7D] then Some zeroToken
                          else if bs = [0x7B, 0x31, 0x7D] then Some tok0 else None),
      jsonEncode = (\<lambda>t. [0x7B, 0x31, 0x7D]),
      createErr = False,
      encodeErr = False,
      driveNewErr = False,
      listFolderErr = False,
      createFolderErr = False,
      copyErr = False,
      listFileErr = False,
      updateErr = False,
      createFileErr = False\<rparr>"

text \<open>A first run: no cached token, an empty remote store, a local file of one byte.\<close>

definition state0 :: state where
  "state0 =
     \<lparr>fs = [''/home/u/secret.json'' \<mapsto> [0x7B, 0x7D], ''/home/u/ring.kdbx'' \<mapsto> [0x61]],
      drive = [],
      trace = []\<rparr>"

definition folder1 :: item where
  "folder1 =
     \<lparr>FileId = ''F1'', Name = ''automatic_backups'', MimeType = folderMime,
      Parents = [''root''], Md5Checksum = [], Media = []\<rparr>"

definition stale1 :: item where
  "stale1 =
     \<lparr>FileId = ''K1'', Name = ''ring.kdbx'', MimeType = defaultMime,
      Parents = [''F1''], Md5Checksum = ''900150983cd24fb0d6963f7d28e17f72'',
      Media = [0x61, 0x62, 0x63]\<rparr>"

text \<open>A later run: the token cache holds \<^verbatim>\<open>{}\<close>, the store a folder and an older copy.\<close>

definition state1 :: state where
  "state1 =
     \<lparr>fs = [''/home/u/secret.json'' \<mapsto> [0x7B, 0x7D], ''/home/u/ring.kdbx'' \<mapsto> [0x61],
            cachePath \<mapsto> [0x7B, 0x7D]],
      drive = [folder1, stale1],
      trace = []\<rparr>"

text \<open>The same, with a token cache that holds a token obtained earlier.\<close>

definition state2 :: state where
  "state2 = state1\<lparr>fs := (fs state1)(cachePath \<mapsto> [0x7B, 0x31, 0x7D])\<rparr>"

text \<open>The same as \<open>state1\<close>, with a local file of length zero.\<close>

definition state3 :: state where
  "state3 = state1\<lparr>fs := (fs state1)(''/home/u/ring.kdbx'' \<mapsto> [])\<rparr>"

text \<open>The first run, with a local file of length zero.\<close>

definition state4 :: state where
  "state4 = state0\<lparr>fs := (fs state0)(''/home/u/ring.kdbx'' \<mapsto> [])\<rparr>"

text \<open>What the first run leaves in the store: the backup folder and the copy.\<close>

definition folder0 :: item where
  "folder0 =
     \<lparr>FileId = ''xxxxx'', Name = ''automatic_backups'', MimeType = folderMime,
      Parents = [''root''], Md5Checksum = [], Media = []\<rparr>"

definition file0 :: item where
  "file0 =
     \<lparr>FileId = ''xxxxxx'', Name = ''ring.kdbx'', MimeType = defaultMime,
      Parents = [''xxxxx''], Md5Checksum = ''0cc175b9c0f1b6a831c399e269772661'',
      Media = [0x61]\<rparr>"

text \<open>A second run after the first one: the token is cached, the store is as left.\<close>

definition state5 :: state where
  "state5 =
     \<lparr>fs = [''/home/u/secret.json'' \<mapsto> [0x7B, 0x7D], ''/home/u/ring.kdbx'' \<mapsto> [0x61],
            cachePath \<mapsto> [0x7B, 0x31, 0x7D]],
      drive = [folder0, file0],
      trace = []\<rparr>"

definition config0 :: Config where
  "config0 = \<lparr>ClientID = ''id'', ClientSecret = ''s'', Scopes = [DriveFileScope]\<rparr>"

text \<open>
  A local file whose base name has apostrophes in it: \<^verbatim>\<open>a' and name = 'a\<close>. The text of the
  file query for it is \<^verbatim>\<open>name = 'a' and name = 'a' and '...' in parents\<close>, which asks for the
  files named \<^verbatim>\<open>a\<close>.
\<close>

definition craftedName :: string where
  "craftedName = ''a'' @ [apostrophe] @ '' and name = '' @ [apostrophe] @ ''a''"

definition env1 :: env where
  "env1 = env0\<lparr>Args := [''keepassx_backup_tool'', ''/home/u/'' @ craftedName,
                          ''/home/u/secret.json'']\<rparr>"

text \<open>A first run for that file: no cached token, an empty remote store.\<close>

definition state6 :: state where
  "state6 =
     \<lparr>fs = [''/home/u/secret.json'' \<mapsto> [0x7B, 0x7D], ''/home/u/'' @ craftedName \<mapsto> [0x61]],
      drive = [],
      trace = []\<rparr>"

definition copy1 :: item where
  "copy1 =
     \<lparr>FileId = ''xxxxxx'', Name = craftedName, MimeType = defaultMime,
      Parents = [''xxxxx''], Md5Checksum = ''0cc175b9c0f1b6a831c399e269772661'',
      Media = [0x61]\<rparr>"

definition copy2 :: item where
  "copy2 = copy1\<lparr>FileId := ''xxxxxxx''\<rparr>"

text \<open>The run after it: the local files and the store are as the first run left them.\<close>

definition state7 :: state where
  "state7 =
     \<lparr>fs = (fs state6)(cachePath \<mapsto> [0x7B, 0x31, 0x7D]),
      drive = [folder0, copy1],
      trace = []\<rparr>"

section \<open>Basic facts\<close>

lemma fs_emit [simp]: "fs (emit ev s) = fs s"
  by (simp add: emit_def)

lemma drive_emit [simp]: "drive (emit ev s) = drive s"
  by (simp add: emit_def)

lemma trace_emit [simp]: "trace (emit ev s) = trace s @ [ev]"
  by (simp add: emit_def)

lemma md5hex_empty: "md5hex [] = emptyFileHash"
  unfolding emptyFileHash_def by code_simp

lemma md5hex_a: "md5hex [0x61] = ''0cc175b9c0f1b6a831c399e269772661''"
  by code_simp

lemmas run_defs =
  main_def main_backup_def main_transfer_def main_folder_def main_hash_def main_upload_def
  getClient_def tokenCacheFile_def tokenFromFile_def getTokenFromWeb_def saveToken_def
  andThen_def readAll_def Seek0_def Let_def

lemmas store_defs =
  Files_List_def Files_Create_def newItem_def Files_Update_def patch_def matches_def
  folderQuery_def fileQuery_def folderMeta_def updateMeta_def createMeta_def folderMime_def
  defaultMime_def freshId_def usedIds_def fileList_def fileQueryText_def driveQuery_def
  apostrophe_def backslash_def word_def

lemmas world_defs =
  env0_def state0_def state1_def state2_def state3_def state4_def state5_def folder0_def
  file0_def folder1_def stale1_def cachePath_def tok0_def zeroToken_def config0_def
  start_def Base_def DriveFileScope_def emptyFileHash_def craftedName_def env1_def
  state6_def state7_def copy1_def copy2_def

lemmas eval_defs = run_defs emit_def store_defs world_defs

section \<open>The store, the stages of a run, and the paths through it\<close>

subsection \<open>The store\<close>

lemma Files_List_append: "Files_List q (d @ d') = Files_List q d @ Files_List q d'"
  by (simp add: Files_List_def)

lemma length_le_foldr_max: "i \<in> set xs \<Longrightarrow> length i \<le> foldr (\<lambda>i n. max (length i) n) xs 0"
  by (induction xs) auto

lemma freshId_unused: "freshId d \<notin> set (usedIds d)"
proof
  assume "freshId d \<in> set (usedIds d)"
  then have "length (freshId d) \<le> foldr (\<lambda>i n. max (length i) n) (usedIds d) 0"
    by (rule length_le_foldr_max)
  then show False
    by (simp add: freshId_def)
qed

lemma freshId_not_root: "freshId d \<noteq> ''root''"
  using freshId_unused [of d] by (simp add: usedIds_def)

lemma freshId_not_id: "f \<in> set d \<Longrightarrow> FileId f \<noteq> freshId d"
  using freshId_unused [of d] by (auto simp: usedIds_def)

lemma freshId_not_parent: "f \<in> set d \<Longrightarrow> freshId d \<notin> set (Parents f)"
  using freshId_unused [of d] by (auto simp: usedIds_def)

lemma Files_List_fresh_parent: "Files_List (fileQuery n (freshId d)) d = []"
  by (auto simp: Files_List_def filter_empty_conv matches_def fileQuery_def
      dest: freshId_not_parent)

lemma find_id:
  "f \<in> set d \<Longrightarrow> wf_drive d \<Longrightarrow> find (\<lambda>g. FileId g = FileId f) d = Some f"
  by (induction d) (auto simp: wf_drive_def)

lemma Files_List_Cons_D:
  "Files_List q d = f # rest \<Longrightarrow> f \<in> set d \<and> matches q f"
  by (metis Files_List_def filter_eq_ConsD in_set_conv_decomp)

lemma Files_Update_renew:
  assumes "wf_drive d" and "f \<in> set d"
  shows "Files_Update (FileId f) (updateMeta n) bs d =
     (if MimeType f = folderMime then None
      else Some (renew (FileId f) n bs f, map (renew (FileId f) n bs) d))"
  using find_id [OF assms(2,1)]
  by (simp add: Files_Update_def patch_def updateMeta_def renew_def)

lemma renew_same_name: "Name g = n \<Longrightarrow> renew i n bs g = reload i bs g"
  by (simp add: renew_def reload_def)

lemma renew_simps [simp]:
  "FileId (renew i n bs g) = FileId g"
  "MimeType (renew i n bs g) = MimeType g"
  "Parents (renew i n bs g) = Parents g"
  by (simp_all add: renew_def)


lemma wf_drive_renew: "wf_drive (map (renew i n bs) d) = wf_drive d"
  by (simp add: wf_drive_def comp_def)

lemma renew_folders:
  assumes wf: "wf_drive d" and f0: "f0 \<in> set d" and nf: "MimeType f0 \<noteq> folderMime"
  shows "Files_List folderQuery (map (renew (FileId f0) n bs) d) = Files_List folderQuery d"
proof -
  have keep: "renew (FileId f0) n bs g = g" if "g \<in> set d" "MimeType g = folderMime" for g
  proof -
    have "FileId g \<noteq> FileId f0"
    proof
      assume "FileId g = FileId f0"
      with wf that(1) f0 have "g = f0"
        by (auto simp: wf_drive_def distinct_map inj_on_def)
      with that(2) nf show False by simp
    qed
    then show ?thesis by (simp add: renew_def)
  qed
  have same: "matches folderQuery (renew (FileId f0) n bs g) = matches folderQuery g"
    if "g \<in> set d" for g
  proof (cases "MimeType g = folderMime")
    case True
    with keep [OF that] show ?thesis by simp
  next
    case False
    then show ?thesis by (simp add: matches_def folderQuery_def)
  qed
  have "filter (matches folderQuery) (map (renew (FileId f0) n bs) d)
      = map (renew (FileId f0) n bs) (filter (matches folderQuery) d)"
    using same by (induction d) auto
  also have "\<dots> = filter (matches folderQuery) d"
    by (rule map_idI) (auto simp: matches_def folderQuery_def intro: keep)
  finally show ?thesis
    by (simp add: Files_List_def)
qed

lemma matches_reload [simp]: "matches q (reload i bs g) = matches q g"
  by (simp add: reload_def matches_def split: option.splits)

lemma FileId_reload [simp]: "FileId (reload i bs g) = FileId g"
  by (simp add: reload_def)

lemma Files_List_reload:
  "Files_List q (map (reload i bs) d) = map (reload i bs) (Files_List q d)"
  by (simp add: Files_List_def filter_map comp_def)

lemma wf_drive_reload: "wf_drive (map (reload i bs) d) = wf_drive d"
  by (simp add: wf_drive_def comp_def)

lemma Files_List_single: "Files_List q [x] = (if matches q x then [x] else [])"
  by (simp add: Files_List_def)

lemma newItem_simps [simp]:
  "FileId (newItem meta media d) = freshId d"
  "Name (newItem meta media d) = Name meta"
  "Md5Checksum (newItem meta (Some bs) d) = md5hex bs"
  by (simp_all add: newItem_def)

lemma matches_newItem [simp]:
  "matches folderQuery (newItem folderMeta None d)"
  "\<not> matches folderQuery (newItem (createMeta n b) media d)"
  "matches (fileQuery n b) (newItem (createMeta n b) media d)"
  "\<not> matches (fileQuery n (freshId d)) (newItem folderMeta None d)"
  using freshId_not_root [of d]
  by (auto simp: matches_def newItem_def folderQuery_def folderMeta_def createMeta_def
      fileQuery_def folderMime_def defaultMime_def)

lemma tokenCacheFile_keeps:
  "tokenCacheFile e s = (r, s') \<Longrightarrow>
     drive s' = drive s \<and> filter isAction (trace s') = filter isAction (trace s)"
  by (auto simp: tokenCacheFile_def Let_def split: option.splits)

lemma tokenFromFile_keeps:
  "tokenFromFile e file s = (r, s') \<Longrightarrow>
     drive s' = drive s \<and> filter isAction (trace s') = filter isAction (trace s)"
  by (auto simp: tokenFromFile_def Let_def split: option.splits)

lemma getTokenFromWeb_keeps:
  "getTokenFromWeb e config s = (r, s') \<Longrightarrow>
     drive s' = drive s \<and> filter isAction (trace s') = filter isAction (trace s)"
  by (auto simp: getTokenFromWeb_def Let_def split: option.splits)

lemma saveToken_keeps:
  "saveToken e file tok s = (r, s') \<Longrightarrow>
     drive s' = drive s \<and> filter isAction (trace s') = filter isAction (trace s)"
  by (auto simp: saveToken_def Let_def split: if_splits)

lemma getClient_keeps:
  assumes "getClient e c s = (r, s')"
  shows "drive s' = drive s \<and> filter isAction (trace s') = filter isAction (trace s)"
proof -
  obtain r1 s1 where 1: "tokenCacheFile e s = (r1, s1)"
    by (cases "tokenCacheFile e s")
  note k1 = tokenCacheFile_keeps [OF 1]
  show ?thesis
  proof (cases r1)
    case (Inl err)
    with assms 1 k1 show ?thesis
      by (auto simp: getClient_def)
  next
    case (Inr cf)
    obtain r2 s2 where 2: "tokenFromFile e cf s1 = (r2, s2)"
      by (cases "tokenFromFile e cf s1")
    note k2 = tokenFromFile_keeps [OF 2]
    show ?thesis
    proof (cases r2)
      case (Inr tok)
      with assms 1 \<open>r1 = Inr cf\<close> 2 k1 k2 show ?thesis
        by (auto simp: getClient_def)
    next
      case (Inl err)
      obtain r3 s3 where 3: "getTokenFromWeb e c s2 = (r3, s3)"
        by (cases "getTokenFromWeb e c s2")
      note k3 = getTokenFromWeb_keeps [OF 3]
      show ?thesis
      proof (cases r3)
        case (Inl f)
        with assms 1 \<open>r1 = Inr cf\<close> 2 \<open>r2 = Inl err\<close> 3 k1 k2 k3 show ?thesis
          by (auto simp: getClient_def andThen_def)
      next
        case (Inr tok)
        obtain r4 s4 where 4: "saveToken e cf tok s3 = (r4, s4)"
          by (cases "saveToken e cf tok s3")
        note k4 = saveToken_keeps [OF 4]
        from assms 1 \<open>r1 = Inr cf\<close> 2 \<open>r2 = Inl err\<close> 3 \<open>r3 = Inr tok\<close> 4 k1 k2 k3 k4
        show ?thesis
          by (cases r4) (auto simp: getClient_def andThen_def)
      qed
    qed
  qed
qed

lemma main_reach:
  assumes "main e s = (r, s')"
  shows "r \<noteq> Inr () \<and> drive s' = drive s
           \<and> filter isAction (trace s') = filter isAction (trace s)
         \<or> (\<exists>s2. length (Args e) = 3 \<and> drive s2 = drive s
              \<and> filter isAction (trace s2) = filter isAction (trace s)
              \<and> main_backup e (Args e ! 1) s2 = (r, s'))"
proof (cases "length (Args e) = 3")
  case False
  with assms show ?thesis
    by (auto simp: main_def Let_def)
next
  case args: True
  show ?thesis
  proof (cases "fs s (Args e ! 2)")
    case None
    with assms args show ?thesis
      by (auto simp: main_def Let_def)
  next
    case (Some b)
    show ?thesis
    proof (cases "ConfigFromJSON e b DriveFileScope")
      case None
      with assms args Some show ?thesis
        by (auto simp: main_def Let_def)
    next
      case (Some config)
      obtain rc s2 where gc: "getClient e config (emit (Log ''Beginning of syncing'') s) = (rc, s2)"
        by (cases "getClient e config (emit (Log ''Beginning of syncing'') s)") 
      from getClient_keeps [OF gc]
      have keep: "drive s2 = drive s" "filter isAction (trace s2) = filter isAction (trace s)"
        by simp_all
      from assms args \<open>fs s (Args e ! 2) = Some b\<close> Some gc keep show ?thesis
        by (cases rc) (auto simp: main_def Let_def andThen_def split: if_splits)
    qed
  qed
qed

lemma main_folder_found:
  assumes "Files_List folderQuery (drive s) = f # rest"
  shows "main_folder e s =
     (if listFolderErr e
      then (Inl (Fatal ''Unable to retrieve files''), emit (ApiList folderQuery) s)
      else (Inr (FileId f),
            emit (Log ''Checking for automatic_backups folder existence:'')
              (emit (ApiList folderQuery) s)))"
  using assms by (simp add: main_folder_def Let_def)

lemma main_folder_missing:
  assumes "Files_List folderQuery (drive s) = []"
  shows "main_folder e s =
     (if listFolderErr e
      then (Inl (Fatal ''Unable to retrieve files''), emit (ApiList folderQuery) s)
      else if createFolderErr e
      then (Inl (Fatal ''Unable to create automatic_backups folder''),
            emit (ApiCreate folderMeta None)
              (emit (Log ''Creating automatic_backups folder'')
                (emit (Log ''Checking for automatic_backups folder existence:'')
                  (emit (ApiList folderQuery) s))))
      else (Inr (freshId (drive s)),
            (emit (ApiCreate folderMeta None)
              (emit (Log ''Creating automatic_backups folder'')
                (emit (Log ''Checking for automatic_backups folder existence:'')
                  (emit (ApiList folderQuery) s))))
            \<lparr>drive := drive s @ [newItem folderMeta None (drive s)]\<rparr>))"
  using assms by (simp add: main_folder_def Let_def Files_Create_def)

lemma main_hash_none:
  assumes "fs s p = None"
  shows "main_hash e p s = (Inl (Fatal ''Unable to open .kdbx file''), s)"
  using assms by (simp add: main_hash_def)

lemma main_hash_some:
  assumes "fs s p = Some bs"
  shows "main_hash e p s =
     (if copyErr e
      then (Inl (Fatal ''Unable to calculate md5 hash of .kdbx file''), emit (Open p) s)
      else if md5hex bs = emptyFileHash
      then (Inl (Fatal ''File .kdbx is empty''), emit (Open p) s)
      else (Inr (\<lparr>hname = p, hdata = bs, hpos = 0\<rparr>, md5hex bs), emit (Open p) s))"
  using assms by (simp add: main_hash_def Let_def readAll_def Seek0_def)

lemma main_upload_refused:
  assumes "fileList e n b (drive s) = None"
  shows "main_upload e n b h hash s
     = (Inl (Fatal ''Unable to retrieve files''), emit (ApiList (fileQuery n b)) s)"
  using assms by (simp add: main_upload_def Let_def)

lemma main_upload_missing:
  assumes "fileList e n b (drive s) = Some []"
  shows "main_upload e n b \<lparr>hname = p, hdata = bs, hpos = 0\<rparr> hash s =
     (if listFileErr e
      then (Inl (Fatal ''Unable to retrieve files''), emit (ApiList (fileQuery n b)) s)
      else if createFileErr e
      then (Inl (Fatal ''Unable to create .kdbx''),
            emit (ApiCreate (createMeta n b) (Some bs))
              (emit (Log ''Creating .kdbx file'')
                (emit (Log ''Checking for .kdbx file existence on Drive:'')
                  (emit (ApiList (fileQuery n b)) s))))
      else (Inr (),
            emit (Log (''Successfully created .kdbx file, id:  '' @ freshId (drive s)))
              ((emit (ApiCreate (createMeta n b) (Some bs))
                 (emit (Log ''Creating .kdbx file'')
                   (emit (Log ''Checking for .kdbx file existence on Drive:'')
                     (emit (ApiList (fileQuery n b)) s))))
               \<lparr>drive := drive s @ [newItem (createMeta n b) (Some bs) (drive s)]\<rparr>)))"
  using assms by (simp add: main_upload_def Let_def readAll_def Files_Create_def)

lemma fileList_Cons_D:
  assumes "fileList e n b d = Some (f # rest)"
  shows "f \<in> set d"
proof -
  from assms obtain P where "filter P d = f # rest"
    by (auto simp: fileList_def split: option.splits)
  then have "f \<in> set (filter P d)"
    by simp
  then show ?thesis
    by simp
qed

lemma main_upload_match:
  assumes "fileList e n b (drive s) = Some (f0 # rest)" and "wf_drive (drive s)"
  shows "main_upload e n b \<lparr>hname = p, hdata = bs, hpos = 0\<rparr> hash s =
     (if listFileErr e
      then (Inl (Fatal ''Unable to retrieve files''), emit (ApiList (fileQuery n b)) s)
      else if Md5Checksum f0 = hash
      then (Inr (),
            emit (Log ''The passwords file has not been changed since last sync'')
              (emit (Log ''Checking for .kdbx file existence on Drive:'')
                (emit (ApiList (fileQuery n b)) s)))
      else if updateErr e \<or> MimeType f0 = folderMime
      then (Inl (Fatal ''Unable to create automatic_backups fodler''),
            emit (ApiUpdate (FileId f0) (updateMeta n) bs)
              (emit (Log ''Updating .kdbx file'')
                (emit (Log ''Checking for .kdbx file existence on Drive:'')
                  (emit (ApiList (fileQuery n b)) s))))
      else (Inr (),
            emit (Log (''Successfully updated .kdbx file, id:  '' @ FileId f0))
              ((emit (ApiUpdate (FileId f0) (updateMeta n) bs)
                 (emit (Log ''Updating .kdbx file'')
                   (emit (Log ''Checking for .kdbx file existence on Drive:'')
                     (emit (ApiList (fileQuery n b)) s))))
               \<lparr>drive := map (renew (FileId f0) n bs) (drive s)\<rparr>)))"
proof -
  from assms(1) have f0: "f0 \<in> set (drive s)"
    by (rule fileList_Cons_D)
  show ?thesis
    using assms(1) Files_Update_renew [OF assms(2) f0, of n bs]
    by (simp add: main_upload_def Let_def readAll_def)
qed

lemma main_transfer_paths:
  assumes run: "main_transfer e p b s = (r, s')" and wf: "wf_drive (drive s)"
  obtains
    (hash_failed) "r \<noteq> Inr ()" "drive s' = drive s"
      "filter isAction (trace s') = filter isAction (trace s)"
  | (list_failed) bs where "fs s p = Some bs" "md5hex bs \<noteq> emptyFileHash"
      "listFileErr e \<or> fileList e (Base p) b (drive s) = None"
      "r \<noteq> Inr ()" "drive s' = drive s"
      "filter isAction (trace s') = filter isAction (trace s) @ [ApiList (fileQuery (Base p) b)]"
  | (create_failed) bs where "fs s p = Some bs" "md5hex bs \<noteq> emptyFileHash"
      "fileList e (Base p) b (drive s) = Some []"
      "r \<noteq> Inr ()" "drive s' = drive s"
      "filter isAction (trace s') = filter isAction (trace s)
         @ [ApiList (fileQuery (Base p) b), ApiCreate (createMeta (Base p) b) (Some bs)]"
  | (created) bs where "fs s p = Some bs" "md5hex bs \<noteq> emptyFileHash"
      "fileList e (Base p) b (drive s) = Some []"
      "r = Inr ()" "drive s' = drive s @ [newItem (createMeta (Base p) b) (Some bs) (drive s)]"
      "filter isAction (trace s') = filter isAction (trace s)
         @ [ApiList (fileQuery (Base p) b), ApiCreate (createMeta (Base p) b) (Some bs)]"
  | (update_failed) bs f0 rest where "fs s p = Some bs" "md5hex bs \<noteq> emptyFileHash"
      "fileList e (Base p) b (drive s) = Some (f0 # rest)"
      "Md5Checksum f0 \<noteq> md5hex bs"
      "r \<noteq> Inr ()" "drive s' = drive s"
      "filter isAction (trace s') = filter isAction (trace s)
         @ [ApiList (fileQuery (Base p) b), ApiUpdate (FileId f0) (updateMeta (Base p)) bs]"
  | (updated) bs f0 rest where "fs s p = Some bs" "md5hex bs \<noteq> emptyFileHash"
      "fileList e (Base p) b (drive s) = Some (f0 # rest)"
      "Md5Checksum f0 \<noteq> md5hex bs" "MimeType f0 \<noteq> folderMime"
      "r = Inr ()" "drive s' = map (renew (FileId f0) (Base p) bs) (drive s)"
      "filter isAction (trace s') = filter isAction (trace s)
         @ [ApiList (fileQuery (Base p) b), ApiUpdate (FileId f0) (updateMeta (Base p)) bs]"
  | (unchanged) bs f0 rest where "fs s p = Some bs" "md5hex bs \<noteq> emptyFileHash"
      "fileList e (Base p) b (drive s) = Some (f0 # rest)"
      "Md5Checksum f0 = md5hex bs"
      "r = Inr ()" "drive s' = drive s"
      "filter isAction (trace s') = filter isAction (trace s)
         @ [ApiList (fileQuery (Base p) b),
            Log ''The passwords file has not been changed since last sync'']"
proof (cases "fs s p")
  case None
  with run have "r \<noteq> Inr ()" "drive s' = drive s"
      "filter isAction (trace s') = filter isAction (trace s)"
    by (auto simp: main_transfer_def main_hash_none andThen_def)
  then show thesis by (rule hash_failed)
next
  case (Some bs)
  note hash = main_hash_some [OF Some, of e]
  show thesis
  proof (cases "copyErr e \<or> md5hex bs = emptyFileHash")
    case True
    with run have "r \<noteq> Inr ()" "drive s' = drive s"
        "filter isAction (trace s') = filter isAction (trace s)"
      by (auto simp: main_transfer_def hash andThen_def split: if_splits)
    then show thesis by (rule hash_failed)
  next
    case False
    then have ok: "md5hex bs \<noteq> emptyFileHash" by simp
    let ?s1 = "emit (Open p) s"
    from False run have up: "andThen
        (main_upload e (Base p) b \<lparr>hname = p, hdata = bs, hpos = 0\<rparr> (md5hex bs) ?s1)
        (\<lambda>_ s3. (Inr (), emit (Close p)
           (emit (Printf [CHR 0x0A, CHR 0x0A]) (emit (Log ''End of syncing'') s3)))) = (r, s')"
      by (simp add: main_transfer_def hash andThen_def [of "(Inr x, y)" for x y])
    show thesis
    proof (cases "fileList e (Base p) b (drive s)")
      case None
      then have none1: "fileList e (Base p) b (drive ?s1) = None" by simp
      note eq = main_upload_refused [OF none1, of "\<lparr>hname = p, hdata = bs, hpos = 0\<rparr>" "md5hex bs"]
      from up eq have "r \<noteq> Inr ()" "drive s' = drive s"
        "filter isAction (trace s') = filter isAction (trace s) @ [ApiList (fileQuery (Base p) b)]"
        by (auto simp: andThen_def)
      with Some ok None show thesis by (intro list_failed) simp_all
    next
      case (Some found)
      note fl = Some
      show thesis
      proof (cases found)
      case Nil
      with fl have nil0: "fileList e (Base p) b (drive s) = Some []" by simp
      then have nil1: "fileList e (Base p) b (drive ?s1) = Some []" by simp
      note eq = main_upload_missing [OF nil1, of p bs "md5hex bs"]
      consider (a) "listFileErr e" | (b) "\<not> listFileErr e" "createFileErr e"
        | (c) "\<not> listFileErr e" "\<not> createFileErr e" by blast
      then show thesis
      proof cases
        case a
        with up eq have "r \<noteq> Inr ()" "drive s' = drive s"
          "filter isAction (trace s') = filter isAction (trace s) @ [ApiList (fileQuery (Base p) b)]"
          by (auto simp: andThen_def)
        with \<open>fs s p = Some bs\<close> ok a show thesis by (intro list_failed) simp_all
      next
        case b
        with up eq have "r \<noteq> Inr ()" "drive s' = drive s"
          "filter isAction (trace s') = filter isAction (trace s)
             @ [ApiList (fileQuery (Base p) b), ApiCreate (createMeta (Base p) b) (Some bs)]"
          by (auto simp: andThen_def)
        with \<open>fs s p = Some bs\<close> ok nil0 show thesis by (rule create_failed)
      next
        case c
        with up eq have "r = Inr ()"
          "drive s' = drive s @ [newItem (createMeta (Base p) b) (Some bs) (drive s)]"
          "filter isAction (trace s') = filter isAction (trace s)
             @ [ApiList (fileQuery (Base p) b), ApiCreate (createMeta (Base p) b) (Some bs)]"
          by (auto simp: andThen_def)
        with \<open>fs s p = Some bs\<close> ok nil0 show thesis by (rule created)
      qed
    next
      case (Cons f0 rest)
      with fl have cons0: "fileList e (Base p) b (drive s) = Some (f0 # rest)" by simp
      then have cons1: "fileList e (Base p) b (drive ?s1) = Some (f0 # rest)" by simp
      from wf have wf1: "wf_drive (drive ?s1)" by simp
      note eq = main_upload_match [OF cons1 wf1, of p bs "md5hex bs"]
      consider (a) "listFileErr e"
        | (b) "\<not> listFileErr e" "Md5Checksum f0 = md5hex bs"
        | (c) "\<not> listFileErr e" "Md5Checksum f0 \<noteq> md5hex bs"
              "updateErr e \<or> MimeType f0 = folderMime"
        | (d) "\<not> listFileErr e" "Md5Checksum f0 \<noteq> md5hex bs"
              "\<not> (updateErr e \<or> MimeType f0 = folderMime)" by blast
      then show thesis
      proof cases
        case a
        with up eq have "r \<noteq> Inr ()" "drive s' = drive s"
          "filter isAction (trace s') = filter isAction (trace s) @ [ApiList (fileQuery (Base p) b)]"
          by (auto simp: andThen_def)
        with \<open>fs s p = Some bs\<close> ok a show thesis by (intro list_failed) simp_all
      next
        case b
        with up eq have "r = Inr ()" "drive s' = drive s"
          "filter isAction (trace s') = filter isAction (trace s)
             @ [ApiList (fileQuery (Base p) b),
                Log ''The passwords file has not been changed since last sync'']"
          by (auto simp: andThen_def)
        with \<open>fs s p = Some bs\<close> ok cons0 b(2) show thesis by (rule unchanged)
      next
        case c
        with up eq have "r \<noteq> Inr ()" "drive s' = drive s"
          "filter isAction (trace s') = filter isAction (trace s)
             @ [ApiList (fileQuery (Base p) b), ApiUpdate (FileId f0) (updateMeta (Base p)) bs]"
          by (auto simp: andThen_def)
        with \<open>fs s p = Some bs\<close> ok cons0 c(2) show thesis by (rule update_failed)
      next
        case d
        with up eq have "r = Inr ()" "drive s' = map (renew (FileId f0) (Base p) bs) (drive s)"
          "filter isAction (trace s') = filter isAction (trace s)
             @ [ApiList (fileQuery (Base p) b), ApiUpdate (FileId f0) (updateMeta (Base p)) bs]"
          by (auto simp: andThen_def)
        with \<open>fs s p = Some bs\<close> ok cons0 d(2,3) show thesis by (intro updated) simp_all
      qed
    qed
    qed
  qed
qed

lemma main_hash_fs: "main_hash e p s = (r, s1) \<Longrightarrow> fs s1 = fs s"
  by (auto simp: main_hash_def Let_def readAll_def Seek0_def split: option.splits if_splits)

lemma main_upload_fs: "main_upload e n b h hash s = (r, s1) \<Longrightarrow> fs s1 = fs s"
  by (auto simp: main_upload_def Let_def Files_Create_def
      split: list.splits if_splits option.splits)

lemma main_transfer_fs:
  assumes "main_transfer e p b s = (r, s')"
  shows "fs s' = fs s"
proof -
  obtain rh sh where h: "main_hash e p s = (rh, sh)"
    by (cases "main_hash e p s")
  note fh = main_hash_fs [OF h]
  show ?thesis
  proof (cases rh)
    case (Inl m)
    with assms h fh show ?thesis
      by (simp add: main_transfer_def andThen_def)
  next
    case (Inr hh)
    obtain ru su where u: "main_upload e (Base p) b (fst hh) (snd hh) sh = (ru, su)"
      by (cases "main_upload e (Base p) b (fst hh) (snd hh) sh")
    note fu = main_upload_fs [OF u]
    from assms h Inr u fh fu show ?thesis
      by (cases ru) (auto simp: main_transfer_def andThen_def split_beta)
  qed
qed

lemma main_folder_paths:
  assumes run: "main_folder e s = (r1, s1)"
  obtains
    (folder_failed) m where "r1 = Inl m" "drive s1 = drive s" "fs s1 = fs s"
      "listFolderErr e
         \<and> filter isAction (trace s1) = filter isAction (trace s) @ [ApiList folderQuery]
       \<or> Files_List folderQuery (drive s) = [] \<and> createFolderErr e
         \<and> filter isAction (trace s1)
             = filter isAction (trace s) @ [ApiList folderQuery, ApiCreate folderMeta None]"
  | (resolved) b A1 where "r1 = Inr b" "resolved (drive s) = (b, drive s1, A1)" "fs s1 = fs s"
      "filter isAction (trace s1) = filter isAction (trace s) @ A1"
proof (cases "Files_List folderQuery (drive s)")
  case Nil
  note eq = main_folder_missing [OF Nil, of e]
  consider (a) "listFolderErr e" | (b) "\<not> listFolderErr e" "createFolderErr e"
    | (c) "\<not> listFolderErr e" "\<not> createFolderErr e" by blast
  then show thesis
  proof cases
    case a
    with run eq show thesis
      by (intro folder_failed [of "Fatal ''Unable to retrieve files''"]) auto
  next
    case b
    with run eq Nil show thesis
      by (intro folder_failed [of "Fatal ''Unable to create automatic_backups folder''"]) auto
  next
    case c
    with run eq Nil show thesis
      by (intro resolved [of "freshId (drive s)"
            "[ApiList folderQuery, ApiCreate folderMeta None]"])
         (auto simp: resolved_def)
  qed
next
  case (Cons f rest)
  note eq = main_folder_found [OF Cons, of e]
  show thesis
  proof (cases "listFolderErr e")
    case True
    with run eq show thesis
      by (intro folder_failed [of "Fatal ''Unable to retrieve files''"]) auto
  next
    case False
    with run eq Cons show thesis
      by (intro resolved [of "FileId f" "[ApiList folderQuery]"]) (auto simp: resolved_def)
  qed
qed

lemma wf_drive_append1:
  "wf_drive (d @ [newItem meta media d]) = wf_drive d"
  by (auto simp: wf_drive_def dest: freshId_not_id)

lemma resolved_wf: "resolved d = (b, d1, A1) \<Longrightarrow> wf_drive d \<Longrightarrow> wf_drive d1"
  by (auto simp: resolved_def wf_drive_append1 split: list.splits)

lemma main_paths:
  assumes run: "main e (start s) = (r, s')" and wf: "wf_drive (drive s)"
  obtains
    (run_early) "r \<noteq> Inr ()" "drive s' = drive s" "filter isAction (trace s') = []"
  | (run_folder_failed) "r \<noteq> Inr ()" "drive s' = drive s"
      "listFolderErr e \<and> filter isAction (trace s') = [ApiList folderQuery]
       \<or> Files_List folderQuery (drive s) = [] \<and> createFolderErr e
         \<and> filter isAction (trace s') = [ApiList folderQuery, ApiCreate folderMeta None]"
  | (run_hash_failed) b d1 A1 where "resolved (drive s) = (b, d1, A1)"
      "r \<noteq> Inr ()" "drive s' = d1" "filter isAction (trace s') = A1"
  | (run_list_failed) b d1 A1 bs where "resolved (drive s) = (b, d1, A1)"
      "fs s' (Args e ! 1) = Some bs" "md5hex bs \<noteq> emptyFileHash"
      "listFileErr e \<or> fileList e (Base (Args e ! 1)) b d1 = None"
      "r \<noteq> Inr ()" "drive s' = d1"
      "filter isAction (trace s') = A1 @ [ApiList (fileQuery (Base (Args e ! 1)) b)]"
  | (run_create_failed) b d1 A1 bs where "resolved (drive s) = (b, d1, A1)"
      "fs s' (Args e ! 1) = Some bs" "md5hex bs \<noteq> emptyFileHash"
      "fileList e (Base (Args e ! 1)) b d1 = Some []"
      "r \<noteq> Inr ()" "drive s' = d1"
      "filter isAction (trace s') = A1
         @ [ApiList (fileQuery (Base (Args e ! 1)) b),
            ApiCreate (createMeta (Base (Args e ! 1)) b) (Some bs)]"
  | (run_created) b d1 A1 bs where "resolved (drive s) = (b, d1, A1)"
      "fs s' (Args e ! 1) = Some bs" "md5hex bs \<noteq> emptyFileHash"
      "fileList e (Base (Args e ! 1)) b d1 = Some []"
      "r = Inr ()" "drive s' = d1 @ [newItem (createMeta (Base (Args e ! 1)) b) (Some bs) d1]"
      "filter isAction (trace s') = A1
         @ [ApiList (fileQuery (Base (Args e ! 1)) b),
            ApiCreate (createMeta (Base (Args e ! 1)) b) (Some bs)]"
  | (run_update_failed) b d1 A1 bs f0 rest where "resolved (drive s) = (b, d1, A1)"
      "fs s' (Args e ! 1) = Some bs" "md5hex bs \<noteq> emptyFileHash"
      "fileList e (Base (Args e ! 1)) b d1 = Some (f0 # rest)"
      "Md5Checksum f0 \<noteq> md5hex bs"
      "r \<noteq> Inr ()" "drive s' = d1"
      "filter isAction (trace s') = A1
         @ [ApiList (fileQuery (Base (Args e ! 1)) b),
            ApiUpdate (FileId f0) (updateMeta (Base (Args e ! 1))) bs]"
  | (run_updated) b d1 A1 bs f0 rest where "resolved (drive s) = (b, d1, A1)"
      "fs s' (Args e ! 1) = Some bs" "md5hex bs \<noteq> emptyFileHash"
      "fileList e (Base (Args e ! 1)) b d1 = Some (f0 # rest)"
      "Md5Checksum f0 \<noteq> md5hex bs" "MimeType f0 \<noteq> folderMime"
      "r = Inr ()" "drive s' = map (renew (FileId f0) (Base (Args e ! 1)) bs) d1"
      "filter isAction (trace s') = A1
         @ [ApiList (fileQuery (Base (Args e ! 1)) b),
            ApiUpdate (FileId f0) (updateMeta (Base (Args e ! 1))) bs]"
  | (run_unchanged) b d1 A1 bs f0 rest where "resolved (drive s) = (b, d1, A1)"
      "fs s' (Args e ! 1) = Some bs" "md5hex bs \<noteq> emptyFileHash"
      "fileList e (Base (Args e ! 1)) b d1 = Some (f0 # rest)"
      "Md5Checksum f0 = md5hex bs"
      "r = Inr ()" "drive s' = d1"
      "filter isAction (trace s') = A1
         @ [ApiList (fileQuery (Base (Args e ! 1)) b),
            Log ''The passwords file has not been changed since last sync'']"
proof -
  from main_reach [OF run]
  consider (stop) "r \<noteq> Inr ()" "drive s' = drive s" "filter isAction (trace s') = []"
    | (go) s2 where "drive s2 = drive s" "filter isAction (trace s2) = []"
        "main_backup e (Args e ! 1) s2 = (r, s')"
    by (auto simp: start_def)
  then show thesis
  proof cases
    case stop
    then show thesis by (rule run_early)
  next
    case go
    obtain r1 s1 where f: "main_folder e s2 = (r1, s1)"
      by (cases "main_folder e s2")
    from f show thesis
    proof (cases rule: main_folder_paths)
      case (folder_failed m)
      with go f have "r \<noteq> Inr ()" "drive s' = drive s"
        "listFolderErr e \<and> filter isAction (trace s') = [ApiList folderQuery]
         \<or> Files_List folderQuery (drive s) = [] \<and> createFolderErr e
           \<and> filter isAction (trace s') = [ApiList folderQuery, ApiCreate folderMeta None]"
        by (auto simp: main_backup_def andThen_def)
      then show thesis by (rule run_folder_failed)
    next
      case (resolved b A1)
      with go f have t: "main_transfer e (Args e ! 1) b s1 = (r, s')"
        by (simp add: main_backup_def andThen_def)
      from resolved go have res: "resolved (drive s) = (b, drive s1, A1)"
        and A1: "filter isAction (trace s1) = A1"
        by simp_all
      from resolved_wf [OF res wf] have wf1: "wf_drive (drive s1)" .
      note fs' = main_transfer_fs [OF t]
      from t wf1 show thesis
      proof (cases rule: main_transfer_paths)
        case hash_failed
        with res A1 show thesis by (intro run_hash_failed) simp_all
      next
        case (list_failed bs)
        with res A1 fs' show thesis by (intro run_list_failed) simp_all
      next
        case (create_failed bs)
        with res A1 fs' show thesis by (intro run_create_failed) simp_all
      next
        case (created bs)
        with res A1 fs' show thesis by (intro run_created) simp_all
      next
        case (update_failed bs f0 rest)
        with res A1 fs' show thesis by (intro run_update_failed) simp_all
      next
        case (updated bs f0 rest)
        with res A1 fs' show thesis by (intro run_updated) simp_all
      next
        case (unchanged bs f0 rest)
        with res A1 fs' show thesis by (intro run_unchanged) simp_all
      qed
    qed
  qed
qed

lemma resolved_cases:
  assumes "resolved d = (b, d1, A1)"
  obtains (found) f rest where "Files_List folderQuery d = f # rest" "b = FileId f" "d1 = d"
      "A1 = [ApiList folderQuery]"
  | (made) "Files_List folderQuery d = []" "b = freshId d"
      "d1 = d @ [newItem folderMeta None d]"
      "A1 = [ApiList folderQuery, ApiCreate folderMeta None]"
  using assms by (auto simp: resolved_def split: list.splits)

lemma resolved_first:
  assumes "resolved d = (b, d1, A1)"
  shows "\<exists>fo rest. Files_List folderQuery d1 = fo # rest \<and> FileId fo = b"
  using assms
  by (cases rule: resolved_cases) (auto simp: Files_List_append Files_List_single)

lemma resolved_copies:
  assumes "resolved d = (b, d1, A1)"
  shows "Files_List (fileQuery n b) d1 = remoteCopies n d"
  using assms
  by (cases rule: resolved_cases)
     (auto simp: remoteCopies_def Files_List_append Files_List_single Files_List_fresh_parent)

lemma copies_same:
  assumes "resolved d = (b, d1, A1)"
  shows "remoteCopies n d1 = Files_List (fileQuery n b) d1"
  using resolved_first [OF assms] by (auto simp: remoteCopies_def)

lemma copies_created:
  assumes "resolved d = (b, d1, A1)"
  shows "remoteCopies n (d1 @ [newItem (createMeta n b) (Some bs) d1])
    = Files_List (fileQuery n b) d1 @ [newItem (createMeta n b) (Some bs) d1]"
  using resolved_first [OF assms]
  by (auto simp: remoteCopies_def Files_List_append Files_List_single)

lemma copies_updated:
  assumes "resolved d = (b, d1, A1)"
  shows "remoteCopies n (map (reload i bs) d1) = map (reload i bs) (Files_List (fileQuery n b) d1)"
  using resolved_first [OF assms]
  by (auto simp: remoteCopies_def Files_List_reload)

lemma Md5Checksum_reload: "Md5Checksum (reload (FileId f) bs f) = md5hex bs"
  by (simp add: reload_def)

lemma filter_actions:
  "filter isWrite (filter isAction tr) = filter isWrite tr"
  "filter isFileWrite (filter isAction tr) = filter isFileWrite tr"
  "filter isFileCreate (filter isAction tr) = filter isFileCreate tr"
  "filter isFolderCreate (filter isAction tr) = filter isFolderCreate tr"
proof -
  have "isWrite ev \<Longrightarrow> isAction ev" "isFileWrite ev \<Longrightarrow> isAction ev"
    "isFileCreate ev \<Longrightarrow> isAction ev" "isFolderCreate ev \<Longrightarrow> isAction ev" for ev
    by (cases ev rule: isFileWrite.cases; simp)+
  then show "filter isWrite (filter isAction tr) = filter isWrite tr"
    "filter isFileWrite (filter isAction tr) = filter isFileWrite tr"
    "filter isFileCreate (filter isAction tr) = filter isFileCreate tr"
    "filter isFolderCreate (filter isAction tr) = filter isFolderCreate tr"
    by (auto intro: filter_cong)
qed

lemma resolved_actions:
  assumes "resolved d = (b, d1, A1)"
  shows "filter isFileWrite A1 = []" and "filter isFileCreate A1 = []"
    and "concat (map folderUsed A1) = []"
    and "Files_List folderQuery d \<noteq> [] \<Longrightarrow> filter isWrite A1 = []"
  using assms
  by (cases rule: resolved_cases; simp add: folderQuery_def)+


lemma mem_actions: "ApiList q \<in> set (filter isAction tr) \<longleftrightarrow> ApiList q \<in> set tr"
  by auto

lemma fileList_exact:
  "readQuery e (fileQueryText n b) = Some (matches (fileQuery n b)) \<Longrightarrow>
     fileList e n b d = Some (Files_List (fileQuery n b) d)"
  by (simp add: fileList_def Files_List_def)

lemma renew_reload_map:
  assumes wf: "wf_drive d" and f: "f \<in> set d" and name: "Name f = n"
  shows "map (renew (FileId f) n bs) d = map (reload (FileId f) bs) d"
proof -
  have "renew (FileId f) n bs g = reload (FileId f) bs g" if "g \<in> set d" for g
  proof (cases "FileId g = FileId f")
    case True
    with wf that f have "g = f"
      by (auto simp: wf_drive_def distinct_map inj_on_def)
    with name show ?thesis
      by (simp add: renew_same_name)
  next
    case False
    then show ?thesis
      by (simp add: renew_def reload_def)
  qed
  then show ?thesis
    by simp
qed

text \<open>The three ways in which a run ends without a fatal error.\<close>

lemma success_cases:
  assumes run: "main e (start s) = (Inr (), s')" and wf: "wf_drive (drive s)"
  obtains
    (ok_created) b d1 A1 bs fo rest where "resolved (drive s) = (b, d1, A1)" "wf_drive d1"
      "fs s' (Args e ! 1) = Some bs"
      "fileList e (Base (Args e ! 1)) b d1 = Some []"
      "drive s' = d1 @ [newItem (createMeta (Base (Args e ! 1)) b) (Some bs) d1]"
      "filter isAction (trace s') = A1
         @ [ApiList (fileQuery (Base (Args e ! 1)) b),
            ApiCreate (createMeta (Base (Args e ! 1)) b) (Some bs)]"
      "Files_List folderQuery (drive s') = fo # rest" "FileId fo = b"
  | (ok_updated) b d1 A1 bs f0 found fo rest where "resolved (drive s) = (b, d1, A1)"
      "wf_drive d1" "fs s' (Args e ! 1) = Some bs"
      "fileList e (Base (Args e ! 1)) b d1 = Some (f0 # found)" "f0 \<in> set d1"
      "Md5Checksum f0 \<noteq> md5hex bs"
      "drive s' = map (renew (FileId f0) (Base (Args e ! 1)) bs) d1"
      "filter isAction (trace s') = A1
         @ [ApiList (fileQuery (Base (Args e ! 1)) b),
            ApiUpdate (FileId f0) (updateMeta (Base (Args e ! 1))) bs]"
      "Files_List folderQuery (drive s') = fo # rest" "FileId fo = b"
  | (ok_unchanged) b d1 A1 bs f0 found fo rest where "resolved (drive s) = (b, d1, A1)"
      "wf_drive d1" "fs s' (Args e ! 1) = Some bs"
      "fileList e (Base (Args e ! 1)) b d1 = Some (f0 # found)"
      "Md5Checksum f0 = md5hex bs"
      "drive s' = d1"
      "filter isAction (trace s') = A1
         @ [ApiList (fileQuery (Base (Args e ! 1)) b),
            Log ''The passwords file has not been changed since last sync'']"
      "Files_List folderQuery (drive s') = fo # rest" "FileId fo = b"
  using run wf
proof (cases rule: main_paths)
  case (run_created b d1 A1 bs)
  from resolved_first [OF run_created(1)] obtain fo rest where
    fo: "Files_List folderQuery d1 = fo # rest" "FileId fo = b"
    by blast
  with run_created have "Files_List folderQuery (drive s') = fo # rest"
    by (simp add: Files_List_append Files_List_single)
  with run_created resolved_wf [OF run_created(1) wf] fo(2) show ?thesis
    by (intro ok_created) simp_all
next
  case (run_updated b d1 A1 bs f0 found)
  note wf1 = resolved_wf [OF run_updated(1) wf]
  from run_updated(4) have f0: "f0 \<in> set d1"
    by (rule fileList_Cons_D)
  from resolved_first [OF run_updated(1)] obtain fo rest where
    fo: "Files_List folderQuery d1 = fo # rest" "FileId fo = b"
    by blast
  with run_updated renew_folders [OF wf1 f0 run_updated(6)]
  have "Files_List folderQuery (drive s') = fo # rest"
    by simp
  with run_updated wf1 f0 fo(2) show ?thesis
    by (intro ok_updated) simp_all
next
  case (run_unchanged b d1 A1 bs f0 found)
  from resolved_first [OF run_unchanged(1)] obtain fo rest where
    fo: "Files_List folderQuery d1 = fo # rest" "FileId fo = b"
    by blast
  with run_unchanged resolved_wf [OF run_unchanged(1) wf] show ?thesis
    by (intro ok_unchanged) simp_all
qed simp_all



lemma fileQuery_not_folderQuery: "fileQuery n b \<noteq> folderQuery"
  by (simp add: fileQuery_def folderQuery_def)

lemma resolved_found:
  "Files_List folderQuery d = fo # rest \<Longrightarrow> resolved d = (FileId fo, d, [ApiList folderQuery])"
  by (simp add: resolved_def)

lemma nochange_actions:
  "Log ''The passwords file has not been changed since last sync'' \<in> set (filter isAction tr)
     \<longleftrightarrow> Log ''The passwords file has not been changed since last sync'' \<in> set tr"
  by auto




lemma driveQuery_folderQueryText: "driveQuery folderQueryText = Some (matches folderQuery)"
  by (simp add: driveQuery_def folderQueryText_def word_def apostrophe_def backslash_def
      matches_def folderQuery_def folderMime_def fun_eq_iff)

text \<open>
  The runs for which the service reads the text of the file query as the query by exact
  name and parent, as it does for a name and an identifier without apostrophe and
  backslash.
\<close>

lemma exact_paths:
  assumes run: "main e (start s) = (Inr (), s')" and wf: "wf_drive (drive s)"
    and exact: "\<forall>b. readQuery e (fileQueryText (Base (Args e ! 1)) b)
                  = Some (matches (fileQuery (Base (Args e ! 1)) b))"
  obtains
    (exact_created) b d1 A1 bs where "resolved (drive s) = (b, d1, A1)" "wf_drive d1"
      "fs s' (Args e ! 1) = Some bs"
      "Files_List (fileQuery (Base (Args e ! 1)) b) d1 = []"
      "drive s' = d1 @ [newItem (createMeta (Base (Args e ! 1)) b) (Some bs) d1]"
      "filter isAction (trace s') = A1
         @ [ApiList (fileQuery (Base (Args e ! 1)) b),
            ApiCreate (createMeta (Base (Args e ! 1)) b) (Some bs)]"
  | (exact_updated) b d1 A1 bs f0 found where "resolved (drive s) = (b, d1, A1)"
      "wf_drive d1" "fs s' (Args e ! 1) = Some bs"
      "Files_List (fileQuery (Base (Args e ! 1)) b) d1 = f0 # found"
      "Md5Checksum f0 \<noteq> md5hex bs"
      "drive s' = map (reload (FileId f0) bs) d1"
      "filter isAction (trace s') = A1
         @ [ApiList (fileQuery (Base (Args e ! 1)) b),
            ApiUpdate (FileId f0) (updateMeta (Base (Args e ! 1))) bs]"
  | (exact_unchanged) b d1 A1 bs f0 found where "resolved (drive s) = (b, d1, A1)"
      "wf_drive d1" "fs s' (Args e ! 1) = Some bs"
      "Files_List (fileQuery (Base (Args e ! 1)) b) d1 = f0 # found"
      "Md5Checksum f0 = md5hex bs"
      "drive s' = d1"
      "filter isAction (trace s') = A1
         @ [ApiList (fileQuery (Base (Args e ! 1)) b),
            Log ''The passwords file has not been changed since last sync'']"
  using run wf
proof (cases rule: success_cases)
  case (ok_created b d1 A1 bs fo rest)
  from fileList_exact [OF exact [rule_format], of b d1] ok_created(4)
  have "Files_List (fileQuery (Base (Args e ! 1)) b) d1 = []"
    by simp
  with ok_created show ?thesis
    by (intro exact_created) simp_all
next
  case (ok_updated b d1 A1 bs f0 found fo rest)
  from fileList_exact [OF exact [rule_format], of b d1] ok_updated(4)
  have fl: "Files_List (fileQuery (Base (Args e ! 1)) b) d1 = f0 # found"
    by simp
  then have "Name f0 = Base (Args e ! 1)"
    by (auto dest: Files_List_Cons_D simp: matches_def fileQuery_def)
  from renew_reload_map [OF ok_updated(2,5) this, of bs] ok_updated(7)
  have "drive s' = map (reload (FileId f0) bs) d1"
    by simp
  with ok_updated fl show ?thesis
    by (intro exact_updated) simp_all
next
  case (ok_unchanged b d1 A1 bs f0 found fo rest)
  from fileList_exact [OF exact [rule_format], of b d1] ok_unchanged(4)
  have "Files_List (fileQuery (Base (Args e ! 1)) b) d1 = f0 # found"
    by simp
  with ok_unchanged show ?thesis
    by (intro exact_unchanged) simp_all
qed

lemma exact_post:
  assumes run: "main e (start s) = (Inr (), s')"
    and wf: "wf_drive (drive s)"
    and exact: "\<forall>b. readQuery e (fileQueryText (Base (Args e ! 1)) b)
                  = Some (matches (fileQuery (Base (Args e ! 1)) b))"
  shows "\<exists>bs. fs s' (Args e ! 1) = Some bs
    \<and> wf_drive (drive s')
    \<and> Files_List folderQuery (drive s') \<noteq> []
    \<and> remoteCopies (Base (Args e ! 1)) (drive s') \<noteq> []
    \<and> Md5Checksum (hd (remoteCopies (Base (Args e ! 1)) (drive s'))) = md5hex bs"
  using run wf exact
proof (cases rule: exact_paths)
  case (exact_created b d1 A1 bs)
  from resolved_first [OF exact_created(1)] exact_created
  show ?thesis
    by (auto simp: copies_created wf_drive_append1 Files_List_append)
next
  case (exact_updated b d1 A1 bs f0 found)
  from resolved_first [OF exact_updated(1)] exact_updated
  show ?thesis
    by (auto simp: copies_updated Md5Checksum_reload wf_drive_reload Files_List_reload)
next
  case (exact_unchanged b d1 A1 bs f0 found)
  from resolved_first [OF exact_unchanged(1)] exact_unchanged
  show ?thesis
    by (auto simp: copies_same)
qed

text \<open>
  For such a run the backup folder keeps at most one file of the base name: a file is
  created, once, only when there was none; when there was one, no file is created and the
  file found is the one that is there afterwards.
\<close>

lemma exact_one_copy:
  assumes run: "main e (start s) = (Inr (), s')"
    and wf: "wf_drive (drive s)"
    and one: "length (remoteCopies (Base (Args e ! 1)) (drive s)) \<le> 1"
    and exact: "\<forall>b. readQuery e (fileQueryText (Base (Args e ! 1)) b)
                  = Some (matches (fileQuery (Base (Args e ! 1)) b))"
  shows "length (remoteCopies (Base (Args e ! 1)) (drive s')) \<le> 1
    \<and> (remoteCopies (Base (Args e ! 1)) (drive s) = []
         \<longrightarrow> length (filter isFileCreate (trace s')) = 1)
    \<and> (remoteCopies (Base (Args e ! 1)) (drive s) \<noteq> []
         \<longrightarrow> filter isFileCreate (trace s') = []
           \<and> map FileId (remoteCopies (Base (Args e ! 1)) (drive s'))
               = map FileId (remoteCopies (Base (Args e ! 1)) (drive s)))"
proof -
  let ?n = "Base (Args e ! 1)"
  have "length (remoteCopies ?n (drive s')) \<le> 1
    \<and> (remoteCopies ?n (drive s) = []
         \<longrightarrow> length (filter isFileCreate (filter isAction (trace s'))) = 1)
    \<and> (remoteCopies ?n (drive s) \<noteq> []
         \<longrightarrow> filter isFileCreate (filter isAction (trace s')) = []
           \<and> map FileId (remoteCopies ?n (drive s')) = map FileId (remoteCopies ?n (drive s)))"
    using run wf exact
  proof (cases rule: exact_paths)
    case (exact_created b d1 A1 bs)
    with resolved_actions [OF exact_created(1)] resolved_copies [OF exact_created(1), of ?n]
    show ?thesis
      by (simp add: copies_created del: filter_filter)
  next
    case (exact_updated b d1 A1 bs f0 found)
    with resolved_actions [OF exact_updated(1)] resolved_copies [OF exact_updated(1), of ?n] one
    show ?thesis
      by (simp add: copies_updated comp_def del: filter_filter)
  next
    case (exact_unchanged b d1 A1 bs f0 found)
    with resolved_actions [OF exact_unchanged(1)] resolved_copies [OF exact_unchanged(1), of ?n]
      one
    show ?thesis
      by (simp add: copies_same del: filter_filter)
  qed
  then show ?thesis
    unfolding filter_actions by blast
qed

text \<open>
  For two such runs in succession, the local file unchanged, the second makes no
  remote-write call and leaves the store as it is; when there was no copy before the first
  run, the two runs together make exactly one file creation.
\<close>

lemma exact_second_run:
  assumes run1: "main e (start s) = (Inr (), s1)"
    and wf: "wf_drive (drive s)"
    and args: "Args e2 = Args e"
    and reader: "readQuery e2 = readQuery e"
    and succ: "drive s2 = drive s1"
    and run2: "main e2 (start s2) = (r2, s2')"
    and same: "fs s2' (Args e ! 1) = fs s1 (Args e ! 1)"
    and exact: "\<forall>b. readQuery e (fileQueryText (Base (Args e ! 1)) b)
                  = Some (matches (fileQuery (Base (Args e ! 1)) b))"
  shows "filter isWrite (trace s2') = []
    \<and> drive s2' = drive s1
    \<and> (r2 = Inr () \<longrightarrow>
          filter isAction (trace s2')
            = [ApiList folderQuery,
               ApiList (fileQuery (Base (Args e ! 1))
                          (FileId (hd (Files_List folderQuery (drive s1))))),
               Log ''The passwords file has not been changed since last sync''])
    \<and> (remoteCopies (Base (Args e ! 1)) (drive s) = [] \<longrightarrow>
          length (filter isFileCreate (trace s1 @ trace s2')) = 1)"
proof -
  let ?n = "Base (Args e ! 1)"
  define A where "A = filter isAction (trace s2')"
  from exact_post [OF run1 wf exact] obtain bs where
    bs: "fs s1 (Args e ! 1) = Some bs" and wf1: "wf_drive (drive s1)"
    and fo: "Files_List folderQuery (drive s1) \<noteq> []"
    and copies: "remoteCopies ?n (drive s1) \<noteq> []"
    and md5: "Md5Checksum (hd (remoteCopies ?n (drive s1))) = md5hex bs"
    by blast
  from fo obtain f0 rest0 where f0: "Files_List folderQuery (drive s2) = f0 # rest0"
    by (cases "Files_List folderQuery (drive s1)") (auto simp: succ)
  note res = resolved_found [OF f0]
  from wf1 succ have wf2: "wf_drive (drive s2)" by simp
  from copies md5 obtain c0 crest where
    c0: "remoteCopies ?n (drive s1) = c0 # crest" "Md5Checksum c0 = md5hex bs"
    by (cases "remoteCopies ?n (drive s1)") auto
  have "Files_List (fileQuery ?n (FileId f0)) (drive s2) = c0 # crest"
    using resolved_copies [OF res, of ?n] succ c0(1) by simp
  with fileList_exact [OF exact [rule_format], of "FileId f0" "drive s2"]
  have cp: "fileList e2 ?n (FileId f0) (drive s2) = Some (c0 # crest)"
    by (simp add: fileList_def reader)
  have first: "length (filter isFileCreate (trace s1)) = 1"
    if "remoteCopies ?n (drive s) = []"
    using exact_one_copy [OF run1 wf _ exact] that by simp
  have A: "filter isWrite A = [] \<and> drive s2' = drive s1
    \<and> (r2 = Inr () \<longrightarrow>
          A = [ApiList folderQuery, ApiList (fileQuery ?n (FileId f0)),
               Log ''The passwords file has not been changed since last sync''])"
    using run2 wf2
  proof (cases rule: main_paths)
    case run_early
    note c = run_early [folded A_def]
    from c succ show ?thesis by simp
  next
    case run_folder_failed
    note c = run_folder_failed [folded A_def]
    from c succ f0 show ?thesis by auto
  next
    case (run_hash_failed b d1 A1)
    note c = run_hash_failed [folded A_def]
    from c res succ show ?thesis by auto
  next
    case (run_list_failed b d1 A1 bs')
    note c = run_list_failed [folded A_def]
    from c res succ show ?thesis by auto
  next
    case (run_create_failed b d1 A1 bs')
    note c = run_create_failed [folded A_def]
    from c res cp args show ?thesis by auto
  next
    case (run_created b d1 A1 bs')
    note c = run_created [folded A_def]
    from c res cp args show ?thesis by auto
  next
    case (run_update_failed b d1 A1 bs' f1 rest1)
    note c = run_update_failed [folded A_def]
    from c res cp c0(2) args same bs show ?thesis by auto
  next
    case (run_updated b d1 A1 bs' f1 rest1)
    note c = run_updated [folded A_def]
    from c res cp c0(2) args same bs show ?thesis by auto
  next
    case (run_unchanged b d1 A1 bs' f1 rest1)
    note c = run_unchanged [folded A_def]
    from c res succ args show ?thesis by auto
  qed
  have hd: "FileId (hd (Files_List folderQuery (drive s1))) = FileId f0"
    using f0 succ by simp
  have "filter isFileCreate (filter isWrite (trace s2')) = []"
    using A unfolding A_def filter_actions by simp
  then have nocreate: "filter isFileCreate (trace s2') = []"
    by (simp add: filter_empty_conv) (metis isFileCreate.elims(2) isWrite.simps(1))
  from A hd nocreate first show ?thesis
    unfolding A_def filter_actions by auto
qed

text \<open>The first run: the folder and the file are created.\<close>

lemma run0:
  "fst (main env0 (start state0)) = Inr ()"
  "fs (snd (main env0 (start state0))) = (fs state0)(cachePath \<mapsto> [0x7B, 0x31, 0x7D])"
  "drive (snd (main env0 (start state0))) = [folder0, file0]"
  "filter isAction (trace (snd (main env0 (start state0))))
     = [ApiList folderQuery, ApiCreate folderMeta None,
        ApiList (fileQuery ''ring.kdbx'' ''xxxxx''),
        ApiCreate (createMeta ''ring.kdbx'' ''xxxxx'') (Some [0x61])]"
proof -
  have "\<exists>tr. main env0 (start state0)
      = (Inr (), \<lparr>fs = (fs state0)(cachePath \<mapsto> [0x7B, 0x31, 0x7D]),
                  drive = [folder0, file0], trace = tr\<rparr>)
      \<and> filter isAction tr
          = [ApiList folderQuery, ApiCreate folderMeta None,
             ApiList (fileQuery ''ring.kdbx'' ''xxxxx''),
             ApiCreate (createMeta ''ring.kdbx'' ''xxxxx'') (Some [0x61])]"
    by (simp add: md5hex_a eval_defs)
  then obtain tr where "main env0 (start state0)
      = (Inr (), \<lparr>fs = (fs state0)(cachePath \<mapsto> [0x7B, 0x31, 0x7D]),
                  drive = [folder0, file0], trace = tr\<rparr>)"
    and "filter isAction tr
          = [ApiList folderQuery, ApiCreate folderMeta None,
             ApiList (fileQuery ''ring.kdbx'' ''xxxxx''),
             ApiCreate (createMeta ''ring.kdbx'' ''xxxxx'') (Some [0x61])]"
    by blast
  then show "fst (main env0 (start state0)) = Inr ()"
    "fs (snd (main env0 (start state0))) = (fs state0)(cachePath \<mapsto> [0x7B, 0x31, 0x7D])"
    "drive (snd (main env0 (start state0))) = [folder0, file0]"
    "filter isAction (trace (snd (main env0 (start state0))))
       = [ApiList folderQuery, ApiCreate folderMeta None,
          ApiList (fileQuery ''ring.kdbx'' ''xxxxx''),
          ApiCreate (createMeta ''ring.kdbx'' ''xxxxx'') (Some [0x61])]"
    by simp_all
qed

text \<open>A run on a store with the folder and an older copy: the copy is updated.\<close>

lemma run1:
  "fst (main env0 (start state1)) = Inr ()"
  "fs (snd (main env0 (start state1))) = fs state1"
  "drive (snd (main env0 (start state1))) = [folder1, reload ''K1'' [0x61] stale1]"
  "filter isAction (trace (snd (main env0 (start state1))))
     = [ApiList folderQuery, ApiList (fileQuery ''ring.kdbx'' ''F1''),
        ApiUpdate ''K1'' (updateMeta ''ring.kdbx'') [0x61]]"
  "last (trace (snd (main env0 (start state1)))) = Close ''/home/u/ring.kdbx''"
proof -
  have "\<exists>tr. main env0 (start state1)
      = (Inr (), \<lparr>fs = fs state1, drive = [folder1, reload ''K1'' [0x61] stale1],
                  trace = tr\<rparr>)
      \<and> filter isAction tr
          = [ApiList folderQuery, ApiList (fileQuery ''ring.kdbx'' ''F1''),
             ApiUpdate ''K1'' (updateMeta ''ring.kdbx'') [0x61]]
      \<and> last tr = Close ''/home/u/ring.kdbx''"
    by (simp add: md5hex_a eval_defs reload_def renew_def)
  then obtain tr where "main env0 (start state1)
      = (Inr (), \<lparr>fs = fs state1, drive = [folder1, reload ''K1'' [0x61] stale1],
                  trace = tr\<rparr>)"
    and "filter isAction tr
          = [ApiList folderQuery, ApiList (fileQuery ''ring.kdbx'' ''F1''),
             ApiUpdate ''K1'' (updateMeta ''ring.kdbx'') [0x61]]"
    and "last tr = Close ''/home/u/ring.kdbx''"
    by blast
  then show "fst (main env0 (start state1)) = Inr ()"
    "fs (snd (main env0 (start state1))) = fs state1"
    "drive (snd (main env0 (start state1))) = [folder1, reload ''K1'' [0x61] stale1]"
    "filter isAction (trace (snd (main env0 (start state1))))
       = [ApiList folderQuery, ApiList (fileQuery ''ring.kdbx'' ''F1''),
          ApiUpdate ''K1'' (updateMeta ''ring.kdbx'') [0x61]]"
    "last (trace (snd (main env0 (start state1)))) = Close ''/home/u/ring.kdbx''"
    by simp_all
qed

text \<open>A run with a local file of length zero, the folder being there.\<close>

lemma run3:
  "fst (main env0 (start state3)) = Inl (Fatal ''File .kdbx is empty'')"
  "fs (snd (main env0 (start state3))) = fs state3"
  "filter isAction (trace (snd (main env0 (start state3)))) = [ApiList folderQuery]"
  "Open ''/home/u/ring.kdbx'' \<in> set (trace (snd (main env0 (start state3))))"
  "Close ''/home/u/ring.kdbx'' \<notin> set (trace (snd (main env0 (start state3))))"
proof -
  have "\<exists>tr. main env0 (start state3)
      = (Inl (Fatal ''File .kdbx is empty''),
         \<lparr>fs = fs state3, drive = [folder1, stale1], trace = tr\<rparr>)
      \<and> filter isAction tr = [ApiList folderQuery]
      \<and> Open ''/home/u/ring.kdbx'' \<in> set tr \<and> Close ''/home/u/ring.kdbx'' \<notin> set tr"
    by (simp add: md5hex_empty [unfolded emptyFileHash_def] eval_defs)
  then obtain tr where "main env0 (start state3)
      = (Inl (Fatal ''File .kdbx is empty''),
         \<lparr>fs = fs state3, drive = [folder1, stale1], trace = tr\<rparr>)"
    and "filter isAction tr = [ApiList folderQuery]"
    and "Open ''/home/u/ring.kdbx'' \<in> set tr" and "Close ''/home/u/ring.kdbx'' \<notin> set tr"
    by blast
  then show "fst (main env0 (start state3)) = Inl (Fatal ''File .kdbx is empty'')"
    "fs (snd (main env0 (start state3))) = fs state3"
    "filter isAction (trace (snd (main env0 (start state3)))) = [ApiList folderQuery]"
    "Open ''/home/u/ring.kdbx'' \<in> set (trace (snd (main env0 (start state3))))"
    "Close ''/home/u/ring.kdbx'' \<notin> set (trace (snd (main env0 (start state3))))"
    by simp_all
qed

text \<open>A run with a local file of length zero, the folder missing.\<close>

lemma run4:
  "fst (main env0 (start state4)) = Inl (Fatal ''File .kdbx is empty'')"
  "drive (snd (main env0 (start state4))) = [folder0]"
  "filter isAction (trace (snd (main env0 (start state4))))
     = [ApiList folderQuery, ApiCreate folderMeta None]"
proof -
  have "\<exists>tr. main env0 (start state4)
      = (Inl (Fatal ''File .kdbx is empty''),
         \<lparr>fs = (fs state4)(cachePath \<mapsto> [0x7B, 0x31, 0x7D]), drive = [folder0], trace = tr\<rparr>)
      \<and> filter isAction tr = [ApiList folderQuery, ApiCreate folderMeta None]"
    by (simp add: md5hex_empty [unfolded emptyFileHash_def] eval_defs)
  then obtain tr where "main env0 (start state4)
      = (Inl (Fatal ''File .kdbx is empty''),
         \<lparr>fs = (fs state4)(cachePath \<mapsto> [0x7B, 0x31, 0x7D]), drive = [folder0], trace = tr\<rparr>)"
    and "filter isAction tr = [ApiList folderQuery, ApiCreate folderMeta None]"
    by blast
  then show "fst (main env0 (start state4)) = Inl (Fatal ''File .kdbx is empty'')"
    "drive (snd (main env0 (start state4))) = [folder0]"
    "filter isAction (trace (snd (main env0 (start state4))))
       = [ApiList folderQuery, ApiCreate folderMeta None]"
    by simp_all
qed

text \<open>The run after the first run.\<close>

lemma run5:
  "fst (main env0 (start state5)) = Inr ()"
  "fs (snd (main env0 (start state5))) = fs state5"
  "drive (snd (main env0 (start state5))) = [folder0, file0]"
  "filter isAction (trace (snd (main env0 (start state5))))
     = [ApiList folderQuery, ApiList (fileQuery ''ring.kdbx'' ''xxxxx''),
        Log ''The passwords file has not been changed since last sync'']"
proof -
  have "\<exists>tr. main env0 (start state5)
      = (Inr (), \<lparr>fs = fs state5, drive = [folder0, file0], trace = tr\<rparr>)
      \<and> filter isAction tr
          = [ApiList folderQuery, ApiList (fileQuery ''ring.kdbx'' ''xxxxx''),
             Log ''The passwords file has not been changed since last sync'']"
    by (simp add: md5hex_a eval_defs)
  then obtain tr where "main env0 (start state5)
      = (Inr (), \<lparr>fs = fs state5, drive = [folder0, file0], trace = tr\<rparr>)"
    and "filter isAction tr
          = [ApiList folderQuery, ApiList (fileQuery ''ring.kdbx'' ''xxxxx''),
             Log ''The passwords file has not been changed since last sync'']"
    by blast
  then show "fst (main env0 (start state5)) = Inr ()"
    "fs (snd (main env0 (start state5))) = fs state5"
    "drive (snd (main env0 (start state5))) = [folder0, file0]"
    "filter isAction (trace (snd (main env0 (start state5))))
       = [ApiList folderQuery, ApiList (fileQuery ''ring.kdbx'' ''xxxxx''),
          Log ''The passwords file has not been changed since last sync'']"
    by simp_all
qed

text \<open>The two runs for the file with apostrophes in its name.\<close>

lemma run6:
  "fst (main env1 (start state6)) = Inr ()"
  "fs (snd (main env1 (start state6))) = fs state7"
  "drive (snd (main env1 (start state6))) = [folder0, copy1]"
  "filter isAction (trace (snd (main env1 (start state6))))
     = [ApiList folderQuery, ApiCreate folderMeta None,
        ApiList (fileQuery craftedName ''xxxxx''),
        ApiCreate (createMeta craftedName ''xxxxx'') (Some [0x61])]"
proof -
  have "\<exists>tr. main env1 (start state6)
      = (Inr (), \<lparr>fs = fs state7, drive = [folder0, copy1], trace = tr\<rparr>)
      \<and> filter isAction tr
          = [ApiList folderQuery, ApiCreate folderMeta None,
             ApiList (fileQuery craftedName ''xxxxx''),
             ApiCreate (createMeta craftedName ''xxxxx'') (Some [0x61])]"
    by (simp add: md5hex_a eval_defs)
  then obtain tr where "main env1 (start state6)
      = (Inr (), \<lparr>fs = fs state7, drive = [folder0, copy1], trace = tr\<rparr>)"
    and "filter isAction tr
          = [ApiList folderQuery, ApiCreate folderMeta None,
             ApiList (fileQuery craftedName ''xxxxx''),
             ApiCreate (createMeta craftedName ''xxxxx'') (Some [0x61])]"
    by blast
  then show "fst (main env1 (start state6)) = Inr ()"
    "fs (snd (main env1 (start state6))) = fs state7"
    "drive (snd (main env1 (start state6))) = [folder0, copy1]"
    "filter isAction (trace (snd (main env1 (start state6))))
       = [ApiList folderQuery, ApiCreate folderMeta None,
          ApiList (fileQuery craftedName ''xxxxx''),
          ApiCreate (createMeta craftedName ''xxxxx'') (Some [0x61])]"
    by simp_all
qed

lemma run7:
  "fst (main env1 (start state7)) = Inr ()"
  "fs (snd (main env1 (start state7))) = fs state7"
  "drive (snd (main env1 (start state7))) = [folder0, copy1, copy2]"
  "filter isAction (trace (snd (main env1 (start state7))))
     = [ApiList folderQuery, ApiList (fileQuery craftedName ''xxxxx''),
        ApiCreate (createMeta craftedName ''xxxxx'') (Some [0x61])]"
proof -
  have "\<exists>tr. main env1 (start state7)
      = (Inr (), \<lparr>fs = fs state7, drive = [folder0, copy1, copy2], trace = tr\<rparr>)
      \<and> filter isAction tr
          = [ApiList folderQuery, ApiList (fileQuery craftedName ''xxxxx''),
             ApiCreate (createMeta craftedName ''xxxxx'') (Some [0x61])]"
    by (simp add: md5hex_a eval_defs)
  then obtain tr where "main env1 (start state7)
      = (Inr (), \<lparr>fs = fs state7, drive = [folder0, copy1, copy2], trace = tr\<rparr>)"
    and "filter isAction tr
          = [ApiList folderQuery, ApiList (fileQuery craftedName ''xxxxx''),
             ApiCreate (createMeta craftedName ''xxxxx'') (Some [0x61])]"
    by blast
  then show "fst (main env1 (start state7)) = Inr ()"
    "fs (snd (main env1 (start state7))) = fs state7"
    "drive (snd (main env1 (start state7))) = [folder0, copy1, copy2]"
    "filter isAction (trace (snd (main env1 (start state7))))
       = [ApiList folderQuery, ApiList (fileQuery craftedName ''xxxxx''),
          ApiCreate (createMeta craftedName ''xxxxx'') (Some [0x61])]"
    by simp_all
qed

lemma run_pair: "fst x = a \<Longrightarrow> x = (a, snd x)"
  by auto

lemma concrete_names:
  "Args env0 ! 1 = ''/home/u/ring.kdbx''" "Base ''/home/u/ring.kdbx'' = ''ring.kdbx''"
  by (simp_all add: env0_def Base_def)

lemma concrete_stores:
  "wf_drive (drive state0)" "wf_drive (drive state1)" "wf_drive (drive state3)"
  "wf_drive (drive state4)"
  "Files_List folderQuery (drive state0) = []"
  "Files_List folderQuery (drive state1) = [folder1]"
  "Files_List folderQuery (drive state3) = [folder1]"
  "Files_List (fileQuery ''ring.kdbx'' ''F1'') (drive state1) = [stale1]"
  "FileId folder1 = ''F1''" "FileId stale1 = ''K1''"
  "remoteCopies ''ring.kdbx'' (drive state0) = []"
  "remoteCopies ''ring.kdbx'' (drive state1) = [stale1]"
  "freshId (drive state0) = ''xxxxx''"
  "newItem folderMeta None (drive state0) = folder0"
  by (simp_all add: wf_drive_def remoteCopies_def store_defs world_defs)

lemma concrete_readers:
  "readQuery env0 = driveQuery"
  "Files_List folderQuery [folder0, file0] = [folder0]"
  "Files_List folderQuery [folder1, reload ''K1'' [0x61] stale1] = [folder1]"
  "FileId folder0 = ''xxxxx''"
  "fileList env0 ''ring.kdbx'' ''F1'' (drive state1) = Some [stale1]"
  "Name stale1 = ''ring.kdbx''"
  by (simp_all add: store_defs world_defs reload_def)

lemma crafted_stores:
  "Base (Args env1 ! 1) = craftedName"
  "lexW [] (fileQueryText craftedName ''xxxxx'')
     = Some [Word ''name'', Word ''='', Lit ''a'', Word ''and'', Word ''name'', Word ''='',
             Lit ''a'', Word ''and'', Lit ''xxxxx'', Word ''in'', Word ''parents'']"
  "wf_drive (drive state7)"
  "remoteCopies craftedName (drive state7) = [copy1]"
  "fileList env1 craftedName ''xxxxx'' (drive state7) = Some []"
  "remoteCopies craftedName [folder0, copy1, copy2] = [copy1, copy2]"
  "Name copy1 = craftedName" "Name copy2 = craftedName"
  "remoteCopies ''ring.kdbx'' (drive state5) = [file0]"
  "remoteCopies ''ring.kdbx'' [folder0, file0] = [file0]"
  by (simp_all add: wf_drive_def remoteCopies_def store_defs world_defs)

section \<open>Properties of the sync engine\<close>



text \<open>
  C2, as amended. When the local file has length zero, the run ends with a fatal error and
  no call that writes a file (a create with content, an update) is made. The creation of
  the backup folder is not excluded: it comes before the file is opened, and happens when
  the folder is missing. When the folder exists, the run makes no remote-write call at
  all.
\<close>

theorem empty_file_no_file_write:
  assumes run: "main e (start s) = (r, s')"
    and wf: "wf_drive (drive s)"
    and ring: "fs s' (Args e ! 1) = Some []"
  shows "r \<noteq> Inr ()
    \<and> filter isFileWrite (trace s') = []
    \<and> (Files_List folderQuery (drive s) \<noteq> [] \<longrightarrow> filter isWrite (trace s') = [])"
proof -
  have "r \<noteq> Inr ()
    \<and> filter isFileWrite (filter isAction (trace s')) = []
    \<and> (Files_List folderQuery (drive s) \<noteq> [] \<longrightarrow> filter isWrite (filter isAction (trace s')) = [])"
    using run wf
  proof (cases rule: main_paths)
    case run_folder_failed
    then show ?thesis by (auto simp del: filter_filter)
  next
    case (run_hash_failed b d1 A1)
    with resolved_actions [OF run_hash_failed(1)] show ?thesis
      by (simp del: filter_filter)
  qed (use ring md5hex_empty in \<open>simp_all del: filter_filter\<close>)
  then show ?thesis
    unfolding filter_actions by blast
qed

theorem empty_file_no_file_write_witness:
  "main env0 (start state3) = (fst (main env0 (start state3)), snd (main env0 (start state3)))
   \<and> wf_drive (drive state3)
   \<and> fs (snd (main env0 (start state3))) (Args env0 ! 1) = Some []
   \<and> Files_List folderQuery (drive state3) \<noteq> []
   \<and> fst (main env0 (start state3)) \<noteq> Inr ()
   \<and> filter isFileWrite (trace (snd (main env0 (start state3)))) = []
   \<and> filter isWrite (trace (snd (main env0 (start state3)))) = []"
proof -
  have h1: "main env0 (start state3)
      = (fst (main env0 (start state3)), snd (main env0 (start state3)))"
    by simp
  have h2: "wf_drive (drive state3)"
    by (rule concrete_stores)
  have h3: "fs (snd (main env0 (start state3))) (Args env0 ! 1) = Some []"
    unfolding run3 concrete_names by (simp add: state3_def state1_def cachePath_def)
  have h4: "Files_List folderQuery (drive state3) \<noteq> []"
    by (simp add: concrete_stores)
  from empty_file_no_file_write [OF h1 h2 h3] h1 h2 h3 h4 show ?thesis
    by blast
qed

text \<open>
  C2, as stated, fails: at a first run with a local file of length zero and no backup
  folder, the folder is created in the remote store, and the fatal error of the empty-file
  check comes after that.
\<close>

theorem empty_file_folder_created_first:
  "fs state4 ''/home/u/ring.kdbx'' = Some []
   \<and> fst (main env0 (start state4)) = Inl (Fatal ''File .kdbx is empty'')
   \<and> filter isWrite (trace (snd (main env0 (start state4)))) = [ApiCreate folderMeta None]
   \<and> drive (start state4) = []
   \<and> drive (snd (main env0 (start state4))) = [folder0]"
proof -
  have "filter isWrite (filter isAction (trace (snd (main env0 (start state4)))))
      = [ApiCreate folderMeta None]"
    unfolding run4 by simp
  then have "filter isWrite (trace (snd (main env0 (start state4)))) = [ApiCreate folderMeta None]"
    unfolding filter_actions .
  moreover have "fs state4 ''/home/u/ring.kdbx'' = Some []" "drive (start state4) = []"
    by (simp_all add: state4_def state0_def start_def)
  ultimately show ?thesis
    using run4(1,2) by blast
qed

text \<open>
  C3. The close of the local file is deferred, and a deferred call runs when \<open>main\<close>
  returns, not when \<^verbatim>\<open>log.Fatalf\<close> ends the process. At a run whose local file has length
  zero the file is opened, the run ends with the fatal error of the empty-file check, and
  the trace has no close of the file. A run that ends without a fatal error closes the file
  as its last step.
\<close>

theorem fatal_exit_leaves_file_open:
  "fst (main env0 (start state3)) = Inl (Fatal ''File .kdbx is empty'')
   \<and> Open ''/home/u/ring.kdbx'' \<in> set (trace (snd (main env0 (start state3))))
   \<and> Close ''/home/u/ring.kdbx'' \<notin> set (trace (snd (main env0 (start state3))))
   \<and> fst (main env0 (start state1)) = Inr ()
   \<and> last (trace (snd (main env0 (start state1)))) = Close ''/home/u/ring.kdbx''"
  using run3(1,4,5) run1(1,5) by blast

text \<open>
  C4. The name of the local file goes into the text of the file query as it is; an
  apostrophe in it is not escaped. For the name \<^verbatim>\<open>a' and name = 'a\<close> the service is asked
  for the files named \<^verbatim>\<open>a\<close>. At a store whose backup folder holds one file of the name of
  the local file, the copy an earlier run has made, the query does not find it, and the
  run, which ends without a fatal error, creates a second file of that name in the folder.
  For the name \<^verbatim>\<open>ring.kdbx\<close> the run after the first run leaves the one copy.
\<close>

theorem unescaped_name_second_copy:
  "Base (Args env1 ! 1) = craftedName
   \<and> lexW [] (fileQueryText craftedName ''xxxxx'')
       = Some [Word ''name'', Word ''='', Lit ''a'', Word ''and'', Word ''name'', Word ''='',
               Lit ''a'', Word ''and'', Lit ''xxxxx'', Word ''in'', Word ''parents'']
   \<and> wf_drive (drive state7)
   \<and> remoteCopies craftedName (drive state7) = [copy1]
   \<and> fileList env1 craftedName ''xxxxx'' (drive state7) = Some []
   \<and> fst (main env1 (start state7)) = Inr ()
   \<and> remoteCopies craftedName (drive (snd (main env1 (start state7)))) = [copy1, copy2]
   \<and> Name copy1 = craftedName \<and> Name copy2 = craftedName
   \<and> remoteCopies ''ring.kdbx'' (drive state5) = [file0]
   \<and> fst (main env0 (start state5)) = Inr ()
   \<and> remoteCopies ''ring.kdbx'' (drive (snd (main env0 (start state5)))) = [file0]"
  unfolding run7 run5 using crafted_stores by simp



text \<open>
  C6. Two runs in succession for the local file \<^verbatim>\<open>a' and name = 'a\<close>, its content
  unchanged. The first run creates the folder and the copy. The second run, on the store
  and the local files the first one left, sends a query text in which the apostrophes of
  the name are not escaped: it asks for the files named \<^verbatim>\<open>a\<close>, finds none, and creates the
  file again. There are two file creations in the two runs, and the second run does not
  report that nothing changed. For the file \<^verbatim>\<open>ring.kdbx\<close> the second run writes nothing.
\<close>

theorem unescaped_name_second_run_creates:
  "fst (main env1 (start state6)) = Inr ()
   \<and> fs (snd (main env1 (start state6))) = fs state7
   \<and> drive (snd (main env1 (start state6))) = drive state7
   \<and> fst (main env1 (start state7)) = Inr ()
   \<and> fs (snd (main env1 (start state7))) = fs state7
   \<and> filter isAction (trace (snd (main env1 (start state7))))
       = [ApiList folderQuery, ApiList (fileQuery craftedName ''xxxxx''),
          ApiCreate (createMeta craftedName ''xxxxx'') (Some [0x61])]
   \<and> filter isWrite (trace (snd (main env1 (start state7))))
       = [ApiCreate (createMeta craftedName ''xxxxx'') (Some [0x61])]
   \<and> Log ''The passwords file has not been changed since last sync''
        \<notin> set (trace (snd (main env1 (start state7))))
   \<and> length (filter isFileCreate
         (trace (snd (main env1 (start state6))) @ trace (snd (main env1 (start state7))))) = 2
   \<and> fst (main env0 (start state0)) = Inr ()
   \<and> drive (snd (main env0 (start state0))) = drive state5
   \<and> fst (main env0 (start state5)) = Inr ()
   \<and> filter isWrite (trace (snd (main env0 (start state5)))) = []"
proof -
  let ?t6 = "trace (snd (main env1 (start state6)))"
  let ?t7 = "trace (snd (main env1 (start state7)))"
  have w7: "filter isWrite (filter isAction ?t7)
      = [ApiCreate (createMeta craftedName ''xxxxx'') (Some [0x61])]"
    unfolding run7 by simp
  have n7: "Log ''The passwords file has not been changed since last sync''
      \<notin> set (filter isAction ?t7)"
    unfolding run7 by simp
  have "length (filter isFileCreate (filter isAction ?t6)) = 1"
    "length (filter isFileCreate (filter isAction ?t7)) = 1"
    unfolding run6 run7 by (simp_all add: createMeta_def folderMeta_def)
  then have c: "length (filter isFileCreate (?t6 @ ?t7)) = 2"
    unfolding filter_actions by simp
  have "filter isWrite (filter isAction (trace (snd (main env0 (start state5))))) = []"
    unfolding run5 by simp
  then have w5: "filter isWrite (trace (snd (main env0 (start state5)))) = []"
    unfolding filter_actions .
  have d: "drive state7 = [folder0, copy1]" "drive state5 = [folder0, file0]"
    by (simp_all add: state7_def state5_def)
  from w7 n7 c w5 d run6(1,2,3) run7(1,2,4) run0(1,3) run5(1) show ?thesis
    unfolding filter_actions nochange_actions by simp
qed

text \<open>
  C7. The backup folder exists, the first item the service returns for the file query has
  the base name of the local file, and its stored hash differs from the MD5 of the local
  file. Then a run that gets the answer to the file query makes exactly one remote-write
  call: the update of that item, addressed by its identifier, with the local file's bytes
  and a metadata name equal to the name the item has. No file is created and the run does
  not report that nothing changed. When the run ends without a fatal error, the store is
  the one before with the content and the content hash of that item replaced; no item is
  added, renamed or moved.
\<close>

theorem changed_file_updated_in_place:
  assumes run: "main e (start s) = (r, s')"
    and wf: "wf_drive (drive s)"
    and folder: "Files_List folderQuery (drive s) = fo # rest"
    and found: "fileList e (Base (Args e ! 1)) (FileId fo) (drive s) = Some (f # rest')"
    and name: "Name f = Base (Args e ! 1)"
    and ring: "fs s' (Args e ! 1) = Some bs"
    and differs: "Md5Checksum f \<noteq> md5hex bs"
  shows "(ApiList (fileQuery (Base (Args e ! 1)) (FileId fo)) \<in> set (trace s')
           \<and> \<not> listFileErr e \<longrightarrow>
          filter isAction (trace s')
            = [ApiList folderQuery, ApiList (fileQuery (Base (Args e ! 1)) (FileId fo)),
               ApiUpdate (FileId f) (updateMeta (Base (Args e ! 1))) bs])
    \<and> (r = Inr () \<longrightarrow>
          filter isWrite (trace s') = [ApiUpdate (FileId f) (updateMeta (Base (Args e ! 1))) bs]
          \<and> drive s' = map (reload (FileId f) bs) (drive s))
    \<and> filter isFileCreate (trace s') = []
    \<and> Log ''The passwords file has not been changed since last sync'' \<notin> set (trace s')
    \<and> Name (updateMeta (Base (Args e ! 1))) = Name f"
proof -
  define A where "A = filter isAction (trace s')"
  note res = resolved_found [OF folder]
  from found have mem: "f \<in> set (drive s)"
    by (rule fileList_Cons_D)
  note same = renew_reload_map [OF wf mem name, of bs]
  from name have meta: "Name (updateMeta (Base (Args e ! 1))) = Name f"
    by (simp add: updateMeta_def)
  have "(ApiList (fileQuery (Base (Args e ! 1)) (FileId fo)) \<in> set A \<and> \<not> listFileErr e \<longrightarrow>
          A = [ApiList folderQuery, ApiList (fileQuery (Base (Args e ! 1)) (FileId fo)),
               ApiUpdate (FileId f) (updateMeta (Base (Args e ! 1))) bs])
    \<and> (r = Inr () \<longrightarrow>
          filter isWrite A = [ApiUpdate (FileId f) (updateMeta (Base (Args e ! 1))) bs]
          \<and> drive s' = map (reload (FileId f) bs) (drive s))
    \<and> filter isFileCreate A = []
    \<and> Log ''The passwords file has not been changed since last sync'' \<notin> set A"
    using run wf
  proof (cases rule: main_paths)
    case run_early
    note c = run_early [folded A_def]
    from c show ?thesis by simp
  next
    case run_folder_failed
    note c = run_folder_failed [folded A_def]
    from c folder show ?thesis
      by (auto simp: fileQuery_not_folderQuery)
  next
    case (run_hash_failed b d1 A1)
    note c = run_hash_failed [folded A_def]
    from c res show ?thesis
      by (auto simp: fileQuery_not_folderQuery)
  next
    case (run_list_failed b d1 A1 bs')
    note c = run_list_failed [folded A_def]
    from c res found show ?thesis
      by auto
  next
    case (run_create_failed b d1 A1 bs')
    note c = run_create_failed [folded A_def]
    from c res found show ?thesis
      by auto
  next
    case (run_created b d1 A1 bs')
    note c = run_created [folded A_def]
    from c res found show ?thesis
      by auto
  next
    case (run_update_failed b d1 A1 bs' f0 rest0)
    note c = run_update_failed [folded A_def]
    from c res found ring show ?thesis
      by auto
  next
    case (run_updated b d1 A1 bs' f0 rest0)
    note c = run_updated [folded A_def]
    from c res found ring same show ?thesis
      by auto
  next
    case (run_unchanged b d1 A1 bs' f0 rest0)
    note c = run_unchanged [folded A_def]
    from c res found ring differs show ?thesis
      by auto
  qed
  with meta show ?thesis
    unfolding A_def filter_actions mem_actions nochange_actions by blast
qed

theorem changed_file_updated_in_place_witness:
  "main env0 (start state1) = (Inr (), snd (main env0 (start state1)))
   \<and> wf_drive (drive state1)
   \<and> Files_List folderQuery (drive state1) = folder1 # []
   \<and> fileList env0 (Base (Args env0 ! 1)) (FileId folder1) (drive state1) = Some (stale1 # [])
   \<and> Name stale1 = Base (Args env0 ! 1)
   \<and> fs (snd (main env0 (start state1))) (Args env0 ! 1) = Some [0x61]
   \<and> Md5Checksum stale1 \<noteq> md5hex [0x61]
   \<and> ApiList (fileQuery (Base (Args env0 ! 1)) (FileId folder1))
        \<in> set (trace (snd (main env0 (start state1))))
   \<and> \<not> listFileErr env0
   \<and> filter isAction (trace (snd (main env0 (start state1))))
       = [ApiList folderQuery, ApiList (fileQuery (Base (Args env0 ! 1)) (FileId folder1)),
          ApiUpdate (FileId stale1) (updateMeta (Base (Args env0 ! 1))) [0x61]]
   \<and> filter isWrite (trace (snd (main env0 (start state1))))
       = [ApiUpdate (FileId stale1) (updateMeta (Base (Args env0 ! 1))) [0x61]]
   \<and> drive (snd (main env0 (start state1))) = map (reload (FileId stale1) [0x61]) (drive state1)
   \<and> filter isFileCreate (trace (snd (main env0 (start state1)))) = []
   \<and> Log ''The passwords file has not been changed since last sync''
        \<notin> set (trace (snd (main env0 (start state1))))
   \<and> Name (updateMeta (Base (Args env0 ! 1))) = Name stale1"
proof -
  have h1: "main env0 (start state1) = (Inr (), snd (main env0 (start state1)))"
    by (rule run_pair) (rule run1)
  have h2: "wf_drive (drive state1)"
    by (rule concrete_stores)
  have h3: "Files_List folderQuery (drive state1) = folder1 # []"
    by (rule concrete_stores)
  have h4: "fileList env0 (Base (Args env0 ! 1)) (FileId folder1) (drive state1)
      = Some (stale1 # [])"
    unfolding concrete_names concrete_stores concrete_readers by simp
  have h5: "Name stale1 = Base (Args env0 ! 1)"
    unfolding concrete_names concrete_readers by simp
  have h6: "fs (snd (main env0 (start state1))) (Args env0 ! 1) = Some [0x61]"
    unfolding run1 concrete_names by (simp add: state1_def cachePath_def)
  have h7: "Md5Checksum stale1 \<noteq> md5hex [0x61]"
    by (simp add: md5hex_a stale1_def)
  have "ApiList (fileQuery (Base (Args env0 ! 1)) (FileId folder1))
      \<in> set (filter isAction (trace (snd (main env0 (start state1)))))"
    unfolding run1 concrete_names concrete_stores by simp
  then have h8: "ApiList (fileQuery (Base (Args env0 ! 1)) (FileId folder1))
      \<in> set (trace (snd (main env0 (start state1))))"
    unfolding mem_actions .
  have h9: "\<not> listFileErr env0"
    by (simp add: env0_def)
  from changed_file_updated_in_place [OF h1 h2 h3 h4 h5 h6 h7] h1 h2 h3 h4 h5 h6 h7 h8 h9
  show ?thesis
    by blast
qed

section \<open>Properties of the credential manager\<close>

text \<open>
  C8. \<open>saveToken\<close> is fatal when the cache file cannot be created, and only then. At a
  run with no cached token where the file is created and the encoder then fails to write
  the token, \<open>saveToken\<close> returns normally, the cache file is left empty, and \<open>getClient\<close>
  returns a client: the failure to cache the token does not end the process.
\<close>

theorem saveToken_encode_error_not_fatal:
  "fst (saveToken (env0\<lparr>encodeErr := True\<rparr>) cachePath tok0 state0) = Inr ()
   \<and> fs (snd (saveToken (env0\<lparr>encodeErr := True\<rparr>) cachePath tok0 state0)) cachePath = Some []
   \<and> fst (getClient (env0\<lparr>encodeErr := True\<rparr>) config0 state0) = Inr (Client config0 tok0)
   \<and> fst (saveToken (env0\<lparr>createErr := True\<rparr>) cachePath tok0 state0)
       = Inl (Fatal ''Unable to cache oauth token'')"
  by (simp add: run_defs world_defs)

text \<open>
  C9. When a token can be read and decoded from the cache file, that is when
  \<open>tokenFromFile\<close> returns no error, \<open>getClient\<close> returns a client that wraps this token,
  and the run shows nothing of the interactive authorization: nothing is printed, nothing
  is read from the operator, no code is exchanged.
\<close>

theorem getClient_cached_no_prompt:
  assumes "tokenCacheFile e s = (Inr file, s1)"
    and "tokenFromFile e file s1 = (Inr tok, s2)"
  shows "getClient e config s = (Inr (Client config tok), s2)
    \<and> filter isInteractive (trace s2) = filter isInteractive (trace s)"
  using assms
  by (auto simp: getClient_def tokenCacheFile_def tokenFromFile_def Let_def
      split: option.splits)

theorem getClient_cached_no_prompt_witness:
  "tokenCacheFile env0 state2
     = (Inr cachePath, emit (MkdirAll ''/home/u/.credentials/keepassx_backup'') state2)
   \<and> tokenFromFile env0 cachePath (emit (MkdirAll ''/home/u/.credentials/keepassx_backup'') state2)
     = (Inr tok0, emit (Close cachePath) (emit (Open cachePath)
          (emit (MkdirAll ''/home/u/.credentials/keepassx_backup'') state2)))
   \<and> getClient env0 config0 state2
     = (Inr (Client config0 tok0), emit (Close cachePath) (emit (Open cachePath)
          (emit (MkdirAll ''/home/u/.credentials/keepassx_backup'') state2)))
   \<and> filter isInteractive (trace (emit (Close cachePath) (emit (Open cachePath)
          (emit (MkdirAll ''/home/u/.credentials/keepassx_backup'') state2)))) = []"
proof -
  have a: "tokenCacheFile env0 state2
      = (Inr cachePath, emit (MkdirAll ''/home/u/.credentials/keepassx_backup'') state2)"
    by (simp add: tokenCacheFile_def env0_def cachePath_def)
  have b: "tokenFromFile env0 cachePath
        (emit (MkdirAll ''/home/u/.credentials/keepassx_backup'') state2)
      = (Inr tok0, emit (Close cachePath) (emit (Open cachePath)
            (emit (MkdirAll ''/home/u/.credentials/keepassx_backup'') state2)))"
    by (simp add: tokenFromFile_def env0_def state2_def state1_def cachePath_def)
  have c: "trace state2 = []"
    by (simp add: state2_def state1_def)
  show ?thesis
    using getClient_cached_no_prompt [OF a b, of config0] a b c by simp
qed

text \<open>
  C10. Acceptance of the cached token is syntactic: whatever token the content of the
  cache file decodes to, \<open>getClient\<close> returns a client with that token. No field of the
  token is looked at, so the zero token of \<^verbatim>\<open>{}\<close> and a token whose expiry has passed are
  accepted as any other. Nothing of the interactive flow is run, no file is created, and
  the local files are as they were, so the cache is not saved again.
\<close>

theorem getClient_accepts_any_decoded_token:
  assumes "userCurrent e = Some home"
    and "fs s (Join [Join [home, ''.credentials'', ''keepassx_backup''],
                ''drive-go-keepassx-backup.json'']) = Some bs"
    and "jsonDecode e bs = Some tok"
  shows "fst (getClient e config s) = Inr (Client config tok)
    \<and> filter isInteractive (trace (snd (getClient e config s))) = filter isInteractive (trace s)
    \<and> filter isCreate (trace (snd (getClient e config s))) = filter isCreate (trace s)
    \<and> fs (snd (getClient e config s)) = fs s"
  using assms
  by (simp add: getClient_def tokenCacheFile_def tokenFromFile_def Let_def)

theorem getClient_accepts_any_decoded_token_witness:
  "userCurrent env0 = Some ''/home/u''
   \<and> fs state1 cachePath = Some [0x7B, 0x7D]
   \<and> jsonDecode env0 [0x7B, 0x7D] = Some zeroToken
   \<and> fst (getClient env0 config0 state1) = Inr (Client config0 zeroToken)
   \<and> filter isInteractive (trace (snd (getClient env0 config0 state1))) = []
   \<and> filter isCreate (trace (snd (getClient env0 config0 state1))) = []
   \<and> fs (snd (getClient env0 config0 state1)) = fs state1"
proof -
  have a: "userCurrent env0 = Some ''/home/u''"
    by (simp add: env0_def)
  have b: "fs state1 (Join [Join [''/home/u'', ''.credentials'', ''keepassx_backup''],
                ''drive-go-keepassx-backup.json'']) = Some [0x7B, 0x7D]"
    by (simp add: state1_def cachePath_def)
  have c: "jsonDecode env0 [0x7B, 0x7D] = Some zeroToken"
    by (simp add: env0_def)
  have d: "trace state1 = []"
    by (simp add: state1_def)
  have b': "fs state1 cachePath = Some [0x7B, 0x7D]"
    by (simp add: state1_def cachePath_def)
  show ?thesis
    using getClient_accepts_any_decoded_token [OF a b c, of config0] a b' c d by simp
qed

end
